theory Spec2Isabelle
  imports Complex_Main
begin

unbundle bit_operations_syntax

section \<open>Machine integers and OpenGL constants\<close>

text \<open>
  Values are mathematical numbers; every conversion of the source to a narrower unsigned
  type is written out with one of the functions below.
\<close>

definition to_u8 :: "int \<Rightarrow> nat" where
  "to_u8 x = nat (x mod 256)"

definition to_u16 :: "nat \<Rightarrow> nat" where
  "to_u16 x = x mod 65536"

definition to_u32 :: "nat \<Rightarrow> nat" where
  "to_u32 x = x mod 4294967296"

text \<open>C++ division of signed integers truncates towards zero.\<close>

definition c_div :: "int \<Rightarrow> int \<Rightarrow> int" where
  "c_div a b = sgn a * sgn b * (\<bar>a\<bar> div \<bar>b\<bar>)"

text \<open>The values of the OpenGL enumerators the file uses, as the OpenGL headers give them.\<close>

definition GL_TEXTURE0 :: nat where "GL_TEXTURE0 = 33984"
definition GL_TEXTURE_2D :: nat where "GL_TEXTURE_2D = 3553"
definition GL_TEXTURE_MAG_FILTER :: nat where "GL_TEXTURE_MAG_FILTER = 10240"
definition GL_TEXTURE_MIN_FILTER :: nat where "GL_TEXTURE_MIN_FILTER = 10241"
definition GL_NEAREST :: int where "GL_NEAREST = 9728"
definition GL_RED :: int where "GL_RED = 6403"
definition GL_GREEN :: int where "GL_GREEN = 6404"
definition GL_BLUE :: int where "GL_BLUE = 6405"
definition GL_ALPHA :: int where "GL_ALPHA = 6406"
definition GL_TEXTURE_SWIZZLE_R :: nat where "GL_TEXTURE_SWIZZLE_R = 36418"
definition GL_TEXTURE_SWIZZLE_RGBA :: nat where "GL_TEXTURE_SWIZZLE_RGBA = 36422"
definition GL_ARRAY_BUFFER :: nat where "GL_ARRAY_BUFFER = 34962"
definition GL_INT :: nat where "GL_INT = 5124"

section \<open>Data model of \<open>sync_texture\<close>\<close>

datatype SceGxmTextureType =
    SCE_GXM_TEXTURE_SWIZZLED
  | SCE_GXM_TEXTURE_CUBE
  | SCE_GXM_TEXTURE_LINEAR
  | SCE_GXM_TEXTURE_TILED
  | SCE_GXM_TEXTURE_SWIZZLED_ARBITRARY
  | SCE_GXM_TEXTURE_LINEAR_STRIDED
  | SCE_GXM_TEXTURE_CUBE_ARBITRARY

text \<open>
  The texture descriptor. \<open>data_addr\<close> (a 30-bit field) and \<open>palette_addr\<close> are the
  fields \<open>sync_texture\<close> reads itself; the other fields hold what the accessors
  \<open>texture_type()\<close>, \<open>gxm::get_format\<close>, \<open>gxm::get_width\<close>, \<open>gxm::get_height\<close>,
  \<open>gxm::get_stride_in_bytes\<close> and \<open>renderer::texture::texture_size\<close> return for the
  descriptor.
\<close>

record SceGxmTexture =
  data_addr :: nat
  palette_addr :: nat
  texture_type :: SceGxmTextureType
  tex_format :: nat
  tex_width :: nat
  tex_height :: nat
  tex_stride_in_bytes :: nat
  tex_size :: nat

text \<open>A swizzle is a pointer to four \<open>GLint\<close>; a null pointer is \<open>None\<close>.\<close>

datatype swizzle = Swizzle int int int int

fun sw_at :: "swizzle \<Rightarrow> nat \<Rightarrow> int" where
  "sw_at (Swizzle a b c d) i = (if i = 0 then a else if i = 1 then b else if i = 2 then c else d)"

fun sw_list :: "swizzle \<Rightarrow> int list" where
  "sw_list (Swizzle a b c d) = [a, b, c, d]"

text \<open>
  Everything the two functions do to the outside world, in the order they do it: log lines,
  OpenGL calls with their arguments in the order of the call, and the calls into the surface
  cache, the texture cache and the ring buffer.
  \<open>RetrieveColorSurfaceTextureHandle\<close> has the width, the height, the stride in pixels, the
  colour base format and the address; \<open>RetrieveDepthStencilTextureHandle\<close> the address, the
  width and the height; \<open>DumpTexture\<close> the texture, the name of the parameter, the base path
  and the title. \<open>RingAllocate i n\<close> is the call \<open>allocate(n)\<close> made for stream \<open>i\<close>, and
  \<open>Memcpy off src n\<close> the copy of \<open>n\<close> bytes from the guest address \<open>src\<close> to the region at
  offset \<open>off\<close> of the ring buffer. A pointer argument of \<open>None\<close> is an indeterminate value.
\<close>

datatype event =
    LogWarn string
  | LogError string
  | LogTrace string
  | GlActiveTexture nat
  | GlBindTexture nat nat
  | GlTexParameteri nat nat int
  | GlTexParameteriv nat nat "int list"
  | RetrieveColorSurfaceTextureHandle nat nat nat nat nat
  | RetrieveDepthStencilTextureHandle nat nat nat
  | CacheAndBindTexture SceGxmTexture
  | BindTexture SceGxmTexture
  | DumpTexture SceGxmTexture string string string
  | RingAllocate nat nat
  | Memcpy nat nat nat
  | GlBindBuffer nat nat
  | GlVertexAttribIPointer int nat nat nat "nat option"
  | GlVertexAttribPointer int nat nat bool nat "nat option"
  | GlEnableVertexAttribArray int
  | GlVertexAttribDivisor int nat

text \<open>
  The two ways the code can leave defined behaviour: an integer division by zero, and an
  element read beyond the end of a vector or an array.
\<close>

datatype error = DivisionByZero | OutOfBounds

text \<open>
  The functions and constants of other files that \<open>sync_texture\<close> calls, as parameters.
  \<open>'s\<close> is the state of the surface cache and of the texture cache (\<open>GLState\<close>); the
  cache calls return the state they leave.
  \<open>convert_base_texture_format_to_base_color_format\<close> returns the converted format when
  the source's function returns true; \<open>retrieve_color_surface_texture_handle\<close> returns
  the handle and the value it leaves in \<open>swizz_raw\<close>.
\<close>

record 's tex_env =
  is_valid_addr_range :: "nat \<Rightarrow> nat \<Rightarrow> bool"
  get_base_format :: "nat \<Rightarrow> nat"
  is_paletted_format :: "nat \<Rightarrow> bool"
  convert_base_texture_format_to_base_color_format :: "nat \<Rightarrow> nat option"
  bits_per_pixel :: "nat \<Rightarrow> nat"
  color_translate_swizzle :: "nat \<Rightarrow> swizzle option"
  texture_translate_swizzle :: "nat \<Rightarrow> swizzle option"
  is_write_surface_non_linearity_filtering :: "nat \<Rightarrow> bool"
  retrieve_color_surface_texture_handle ::
    "'s \<Rightarrow> nat \<Rightarrow> nat \<Rightarrow> nat \<Rightarrow> nat \<Rightarrow> nat \<Rightarrow> nat \<times> nat \<times> 's"
  retrieve_depth_stencil_texture_handle :: "'s \<Rightarrow> nat \<Rightarrow> nat \<Rightarrow> nat \<Rightarrow> nat \<times> 's"
  cache_and_bind_texture :: "'s \<Rightarrow> SceGxmTexture \<Rightarrow> 's"
  bind_texture :: "'s \<Rightarrow> SceGxmTexture \<Rightarrow> 's"
  SCE_GXM_MAX_TEXTURE_UNITS :: nat
  SCE_GXM_TEXTURE_BASE_FORMAT_X8U24 :: nat

record Config =
  texture_cache :: bool
  dump_textures :: bool

text \<open>
  The fields of \<open>GLContext\<close> that \<open>sync_texture\<close> reads or writes.
  \<open>self_sampling_indices\<close> is a vector of \<open>GLuint\<close>; the two shader-hint arrays are
  functions from the array index. \<open>fragment_program_parameters\<close> holds, for each
  parameter of the fragment program, its resource index and its raw name.
\<close>

record GLContext =
  color_surface_address :: nat
  color_surface_colorFormat :: nat
  current_color_attachment :: nat
  self_sampling_indices :: "nat list"
  vertex_textures :: "nat \<Rightarrow> nat"
  fragment_textures :: "nat \<Rightarrow> nat"
  fragment_program_parameters :: "(nat \<times> string) list"

section \<open>\<open>sync_texture\<close>\<close>

text \<open>
  Modelled from the spec: \<open>align\<close> of \<open>util/align.h\<close>, which is not part of this file.
  The spec says "width rounded up to 8" and "width rounded up to 32": the least multiple of the
  alignment that is not below the value. Its result has the type of the value, here
  \<open>std::uint16_t\<close>.
\<close>

definition align :: "nat \<Rightarrow> nat \<Rightarrow> nat" where
  "align v a = to_u16 (((v + (a - 1)) div a) * a)"

text \<open>Lines 326 to 340: the stride in pixels of the colour surface looked up.\<close>

definition stride_in_pixels :: "'s tex_env \<Rightarrow> SceGxmTexture \<Rightarrow> nat \<Rightarrow> nat \<Rightarrow> error + nat" where
  "stride_in_pixels env texture base_format width =
     (case texture_type texture of
        SCE_GXM_TEXTURE_LINEAR_STRIDED \<Rightarrow>
          (let bytes_per_pixel = drop_bit 3 (bits_per_pixel env base_format + 7)
           in if bytes_per_pixel = 0 then Inl DivisionByZero
              else Inr (to_u16 (to_u16 (tex_stride_in_bytes texture) div bytes_per_pixel)))
      | SCE_GXM_TEXTURE_LINEAR \<Rightarrow> Inr (align width 8)
      | SCE_GXM_TEXTURE_TILED \<Rightarrow> Inr (align width 32)
      | _ \<Rightarrow> Inr width)"

text \<open>
  Lines 320 to 350: the lookup of a colour surface at the address of the texture. The result
  is \<open>texture_as_surface\<close>, \<open>swizzle_surface\<close>, \<open>only_nearest\<close>, the state of the caches
  and the calls made.
\<close>

definition lookup_colour_surface ::
  "'s tex_env \<Rightarrow> 's \<Rightarrow> SceGxmTexture \<Rightarrow> nat \<Rightarrow> nat \<Rightarrow>
   error + (nat \<times> swizzle option \<times> bool \<times> 's \<times> event list)" where
  "lookup_colour_surface env state texture addr base_format =
    (let width = to_u16 (tex_width texture);
         height = to_u16 (tex_height texture)
     in case convert_base_texture_format_to_base_color_format env base_format of
          None \<Rightarrow> Inr (0, None, False, state, [])
        | Some format_target_of_texture \<Rightarrow>
            (case stride_in_pixels env texture base_format width of
               Inl e \<Rightarrow> Inl e
             | Inr stride \<Rightarrow>
                 (case retrieve_color_surface_texture_handle env state width height stride
                         format_target_of_texture addr of
                    (handle, swizz_raw, state') \<Rightarrow>
                      Inr (handle,
                           color_translate_swizzle env (format_target_of_texture OR swizz_raw),
                           is_write_surface_non_linearity_filtering env format_target_of_texture,
                           state',
                           [RetrieveColorSurfaceTextureHandle width height stride
                              format_target_of_texture addr]))))"

text \<open>
  Lines 305 to 363: which surface, if any, the texture is. The result is
  \<open>texture_as_surface\<close>, \<open>swizzle_surface\<close>, \<open>only_nearest\<close>, the state of the caches,
  the self-sampling indices and the calls made.
  \<open>index\<close> is a \<open>std::size_t\<close>: \<open>push_back\<close> and the second \<open>std::find\<close> convert it to
  \<open>GLuint\<close>, the first \<open>std::find\<close> compares it as it is.
\<close>

definition lookup_surface ::
  "'s tex_env \<Rightarrow> 's \<Rightarrow> GLContext \<Rightarrow> nat \<Rightarrow> SceGxmTexture \<Rightarrow> nat \<Rightarrow> nat \<Rightarrow>
   error + (nat \<times> swizzle option \<times> bool \<times> 's \<times> nat list \<times> event list)" where
  "lookup_surface env state context index texture addr base_format =
    (if color_surface_address context = addr then
       Inr (current_color_attachment context,
            color_translate_swizzle env (color_surface_colorFormat context),
            False, state,
            (if index \<in> set (self_sampling_indices context) then self_sampling_indices context
             else self_sampling_indices context @ [to_u32 index]),
            [])
     else
       (let indices = remove1 (to_u32 index) (self_sampling_indices context);
            width = to_u16 (tex_width texture);
            height = to_u16 (tex_height texture)
        in case lookup_colour_surface env state texture addr base_format of
             Inl e \<Rightarrow> Inl e
           | Inr (texture_as_surface, swizzle_surface, only_nearest, state1, events1) \<Rightarrow>
               if texture_as_surface = 0 then
                 (case retrieve_depth_stencil_texture_handle env state1 addr width height of
                    (handle, state2) \<Rightarrow>
                      Inr (handle, swizzle_surface, (if handle \<noteq> 0 then True else only_nearest),
                           state2, indices,
                           events1 @ [RetrieveDepthStencilTextureHandle addr width height]))
               else Inr (texture_as_surface, swizzle_surface, only_nearest, state1, indices, events1)))"

text \<open>Lines 384 to 389: the search of the surface's swizzle for the channel of the texture.\<close>

function swizzle_search :: "swizzle \<Rightarrow> swizzle \<Rightarrow> nat \<Rightarrow> nat \<Rightarrow> event list" where
  "swizzle_search swizzle_surface swz i j =
     (if j < 4 then
        (if sw_at swz i = sw_at swizzle_surface j
         then [GlTexParameteri GL_TEXTURE_2D (GL_TEXTURE_SWIZZLE_R + i) (GL_RED + int j)]
         else swizzle_search swizzle_surface swz i (j + 1))
      else [])"
  by pat_completeness auto
termination
  by (relation "measure (\<lambda>(s, t, i, j). 4 - j)") auto

declare swizzle_search.simps [simp del]

text \<open>Lines 380 to 391: the loop over the four channels.\<close>

function swizzle_channels :: "swizzle \<Rightarrow> swizzle \<Rightarrow> nat \<Rightarrow> event list" where
  "swizzle_channels swizzle_surface swz i =
     (if i < 4 then
        (if sw_at swz i < GL_RED \<or> sw_at swz i > GL_ALPHA
         then [GlTexParameteri GL_TEXTURE_2D (GL_TEXTURE_SWIZZLE_R + i) (sw_at swz i)]
         else swizzle_search swizzle_surface swz i 0)
        @ swizzle_channels swizzle_surface swz (i + 1)
      else [])"
  by pat_completeness auto
termination
  by (relation "measure (\<lambda>(s, t, i). 4 - i)") auto

declare swizzle_channels.simps [simp del]

text \<open>Lines 376 to 400: the swizzle given to the bound surface.\<close>

definition apply_swizzle :: "swizzle option \<Rightarrow> swizzle option \<Rightarrow> event list" where
  "apply_swizzle swz swizzle_surface =
     (case swz of
        None \<Rightarrow> []
      | Some t \<Rightarrow>
          (case swizzle_surface of
             Some s \<Rightarrow>
               (if sw_list s \<noteq> sw_list t then swizzle_channels s t 0
                else [GlTexParameteriv GL_TEXTURE_2D GL_TEXTURE_SWIZZLE_RGBA
                        [GL_RED, GL_GREEN, GL_BLUE, GL_ALPHA]])
           | None \<Rightarrow>
               [LogTrace ''No surface swizzle found, use default texture swizzle'',
                GlTexParameteriv GL_TEXTURE_2D GL_TEXTURE_SWIZZLE_RGBA (sw_list t)]))"

text \<open>Lines 365 to 408: binding the surface found, or the texture from the texture cache.\<close>

definition bind_resolved ::
  "'s tex_env \<Rightarrow> Config \<Rightarrow> 's \<Rightarrow> SceGxmTexture \<Rightarrow> nat \<Rightarrow> nat \<Rightarrow> nat \<Rightarrow> swizzle option \<Rightarrow> bool \<Rightarrow>
   's \<times> event list" where
  "bind_resolved env config state texture fmt base_format texture_as_surface swizzle_surface
     only_nearest =
    (if texture_as_surface \<noteq> 0 then
       (state,
        [GlBindTexture GL_TEXTURE_2D (to_u32 texture_as_surface)]
        @ (if only_nearest
           then [GlTexParameteri GL_TEXTURE_2D GL_TEXTURE_MIN_FILTER GL_NEAREST,
                 GlTexParameteri GL_TEXTURE_2D GL_TEXTURE_MAG_FILTER GL_NEAREST]
           else [])
        @ (if base_format \<noteq> SCE_GXM_TEXTURE_BASE_FORMAT_X8U24 env
           then apply_swizzle (texture_translate_swizzle env fmt) swizzle_surface
           else []))
     else if texture_cache config then
       (cache_and_bind_texture env state texture, [CacheAndBindTexture texture])
     else
       (bind_texture env state texture, [BindTexture texture]))"

text \<open>Lines 410 to 425: the name of the parameter the texture is bound to, and the dump.\<close>

fun find_parameter_name :: "(nat \<times> string) list \<Rightarrow> nat \<Rightarrow> string" where
  "find_parameter_name [] index = ''''"
| "find_parameter_name ((resource_index, name) # ps) index =
     (if resource_index = index then name else find_parameter_name ps index)"

definition dump_texture ::
  "Config \<Rightarrow> GLContext \<Rightarrow> nat \<Rightarrow> SceGxmTexture \<Rightarrow> string \<Rightarrow> string \<Rightarrow> event list" where
  "dump_texture config context index texture base_path title_id =
     (if dump_textures config
      then [DumpTexture texture
              (find_parameter_name (fragment_program_parameters context) index) base_path title_id]
      else [])"

text \<open>Lines 292 to 297: the format of the texture, noted for the shader of the unit.\<close>

definition set_shader_hint :: "'s tex_env \<Rightarrow> GLContext \<Rightarrow> nat \<Rightarrow> nat \<Rightarrow> GLContext" where
  "set_shader_hint env context index fmt =
     (if index \<ge> SCE_GXM_MAX_TEXTURE_UNITS env
      then context\<lparr>vertex_textures :=
             (vertex_textures context)(index - SCE_GXM_MAX_TEXTURE_UNITS env := fmt)\<rparr>
      else context\<lparr>fragment_textures := (fragment_textures context)(index := fmt)\<rparr>)"

text \<open>Line 277: \<open>Address data_addr = texture.data_addr << 2\<close>; an \<open>Address\<close> has 32 bits.\<close>

definition texture_address :: "SceGxmTexture \<Rightarrow> nat" where
  "texture_address texture = to_u32 (push_bit 2 (data_addr texture))"

text \<open>
  \<open>sync_texture\<close>, lines 275 to 428. The result is the state of the caches, the context
  and the calls made, or the error that stops the program.
\<close>

definition sync_texture ::
  "'s tex_env \<Rightarrow> 's \<Rightarrow> GLContext \<Rightarrow> nat \<Rightarrow> SceGxmTexture \<Rightarrow> Config \<Rightarrow> string \<Rightarrow> string \<Rightarrow>
   error + ('s \<times> GLContext \<times> event list)" where
  "sync_texture env state context index texture config base_path title_id =
    (let addr = texture_address texture;
         texture_size = tex_size texture
     in if \<not> is_valid_addr_range env addr (addr + texture_size) then
          Inr (state, context, [LogWarn ''Texture has freed data.''])
        else
          (let fmt = tex_format texture;
               base_format = get_base_format env fmt
           in if is_paletted_format env base_format \<and> palette_addr texture = 0 then
                Inr (state, context, [LogWarn ''Ignoring null palette texture''])
              else
                (let context1 = set_shader_hint env context index fmt
                 in case lookup_surface env state context1 index texture addr base_format of
                      Inl e \<Rightarrow> Inl e
                    | Inr (texture_as_surface, swizzle_surface, only_nearest, state1, indices, events1) \<Rightarrow>
                        (case bind_resolved env config state1 texture fmt base_format
                                texture_as_surface swizzle_surface only_nearest of
                           (state2, events2) \<Rightarrow>
                             Inr (state2,
                                  context1\<lparr>self_sampling_indices := indices\<rparr>,
                                  [GlActiveTexture (to_u32 (GL_TEXTURE0 + index))]
                                  @ events1 @ events2
                                  @ dump_texture config context1 index texture base_path title_id
                                  @ [GlActiveTexture GL_TEXTURE0])))))"

section \<open>Data model of \<open>sync_vertex_streams_and_attributes\<close>\<close>

datatype SceGxmParameterType =
    SCE_GXM_PARAMETER_TYPE_F32
  | SCE_GXM_PARAMETER_TYPE_F16
  | SCE_GXM_PARAMETER_TYPE_C10
  | SCE_GXM_PARAMETER_TYPE_U32
  | SCE_GXM_PARAMETER_TYPE_S32
  | SCE_GXM_PARAMETER_TYPE_U16
  | SCE_GXM_PARAMETER_TYPE_S16
  | SCE_GXM_PARAMETER_TYPE_U8
  | SCE_GXM_PARAMETER_TYPE_S8
  | SCE_GXM_PARAMETER_TYPE_AGGREGATE

record SceGxmVertexAttribute =
  streamIndex :: nat
  offset :: nat
  format :: nat
  componentCount :: nat
  regIndex :: nat

record SceGxmVertexStream =
  stride :: nat
  indexSource :: nat

text \<open>
  \<open>shader::usse::AttributeInformation\<close>: what \<open>location()\<close> and \<open>gxm_type()\<close> return,
  and the field \<open>regformat\<close>.
\<close>

record AttributeInformation =
  location :: nat
  gxm_type :: SceGxmParameterType
  regformat :: bool

record GLVertexProgram =
  stripped_symbols_checked :: bool
  attribute_infos :: "nat \<rightharpoonup> AttributeInformation"

text \<open>
  \<open>program_primary_reg_count\<close> is \<open>None\<close> when the pointer to the program body is null.
  \<open>renderer_data\<close> is the \<open>GLVertexProgram\<close> the vertex program points to.
\<close>

record SceGxmVertexProgram =
  attributes :: "SceGxmVertexAttribute list"
  streams :: "SceGxmVertexStream list"
  program_primary_reg_count :: "nat option"
  renderer_data :: GLVertexProgram

text \<open>An element of \<open>state.vertex_streams\<close>: the guest address of the data (0 is null) and its size.\<close>

record GXMStreamInfo =
  stream_data :: nat
  stream_size :: nat

record GxmRecordState =
  vertex_program :: SceGxmVertexProgram
  vertex_streams :: "GXMStreamInfo list"

text \<open>
  The functions and constants of other files that \<open>sync_vertex_streams_and_attributes\<close>
  calls. \<open>'r\<close> is the state of \<open>context.vertex_stream_ring_buffer\<close>; \<open>allocate\<close> returns
  the offset of the region when the pointer it returns is not null, and the state it leaves.
\<close>

record 'r vtx_env =
  allocate :: "'r \<Rightarrow> nat \<Rightarrow> nat option \<times> 'r"
  handle :: "'r \<Rightarrow> nat"
  attribute_format_to_gl_type :: "nat \<Rightarrow> nat"
  attribute_format_normalised :: "nat \<Rightarrow> bool"
  attribute_format_size :: "nat \<Rightarrow> int"
  is_stream_instancing :: "nat \<Rightarrow> bool"
  SCE_GXM_ATTRIBUTE_FORMAT_UNTYPED :: nat

section \<open>\<open>sync_vertex_streams_and_attributes\<close>\<close>

text \<open>
  Lines 462 to 464: \<open>emplace\<close> adds the information of attribute \<open>i\<close> under its register
  index unless the map has that key.
\<close>

fun emplace_attributes ::
  "SceGxmVertexAttribute list \<Rightarrow> nat \<Rightarrow> (nat \<rightharpoonup> AttributeInformation) \<Rightarrow>
   (nat \<rightharpoonup> AttributeInformation)" where
  "emplace_attributes [] i infos = infos"
| "emplace_attributes (a # as) i infos =
     emplace_attributes as (i + 1)
       (if infos (regIndex a) = None
        then infos(regIndex a \<mapsto>
               \<lparr>location = to_u16 i, gxm_type = SCE_GXM_PARAMETER_TYPE_F32, regformat = False\<rparr>)
        else infos)"

text \<open>Lines 458 to 468.\<close>

definition check_stripped_symbols :: "SceGxmVertexProgram \<Rightarrow> GLVertexProgram" where
  "check_stripped_symbols vp =
     (let glvert = renderer_data vp
      in if \<not> stripped_symbols_checked glvert then
           glvert\<lparr>attribute_infos :=
                    (case program_primary_reg_count vp of
                       None \<Rightarrow> attribute_infos glvert
                     | Some n \<Rightarrow>
                         if n \<noteq> 0 then emplace_attributes (attributes vp) 0 (attribute_infos glvert)
                         else attribute_infos glvert),
                  stripped_symbols_checked := True\<rparr>
         else glvert)"

text \<open>
  Lines 472 to 488: the loop over \<open>state.vertex_streams\<close>, from index \<open>i\<close> on. The result
  is the ring buffer, the streams, \<open>offset_in_buffer\<close> and the calls made. An element of
  \<open>offset_in_buffer\<close> that the loop does not write is \<open>None\<close>.
\<close>

fun stage_streams ::
  "'r vtx_env \<Rightarrow> 'r \<Rightarrow> nat \<Rightarrow> GXMStreamInfo list \<Rightarrow>
   'r \<times> GXMStreamInfo list \<times> nat option list \<times> event list" where
  "stage_streams env ring i [] = (ring, [], [], [])"
| "stage_streams env ring i (s # ss) =
     (if stream_data s \<noteq> 0 then
        (case allocate env ring (stream_size s) of
           (result, ring1) \<Rightarrow>
             (case stage_streams env ring1 (i + 1) ss of
                (ring2, ss', offsets, events) \<Rightarrow>
                  (ring2,
                   s\<lparr>stream_data := 0, stream_size := 0\<rparr> # ss',
                   (case result of None \<Rightarrow> None | Some off \<Rightarrow> Some off) # offsets,
                   RingAllocate i (stream_size s)
                   # (case result of
                        None \<Rightarrow> LogError ''Failed to allocate vertex stream data from GPU!''
                      | Some off \<Rightarrow> Memcpy off (stream_data s) (stream_size s))
                   # events)))
      else
        (case stage_streams env ring (i + 1) ss of
           (ring2, ss', offsets, events) \<Rightarrow> (ring2, s # ss', Some 0 # offsets, events)))"

text \<open>
  Lines 510 to 539: \<open>component_count\<close>, \<open>type\<close>, \<open>upload_integral\<close>, \<open>array_size\<close> and
  \<open>array_element_size\<close> of an attribute.
\<close>

definition attribute_layout ::
  "'r vtx_env \<Rightarrow> AttributeInformation \<Rightarrow> SceGxmVertexAttribute \<Rightarrow> nat \<times> nat \<times> bool \<times> nat \<times> nat" where
  "attribute_layout env info attribute =
     (if regformat info then
        (let comp_size = attribute_format_size env (format attribute);
             component_count =
               to_u8 (c_div (comp_size * int (componentCount attribute) + 3) 4)
         in if component_count > 4
            then (4, GL_INT, True, (component_count + 3) div 4, 16)
            else (component_count, GL_INT, True, 1, 0))
      else
        (componentCount attribute,
         attribute_format_to_gl_type env (format attribute),
         (case gxm_type info of
            SCE_GXM_PARAMETER_TYPE_U8 \<Rightarrow> True
          | SCE_GXM_PARAMETER_TYPE_S8 \<Rightarrow> True
          | SCE_GXM_PARAMETER_TYPE_U16 \<Rightarrow> True
          | SCE_GXM_PARAMETER_TYPE_S16 \<Rightarrow> True
          | SCE_GXM_PARAMETER_TYPE_U32 \<Rightarrow> True
          | SCE_GXM_PARAMETER_TYPE_S32 \<Rightarrow> True
          | _ \<Rightarrow> False),
         1, 0))"

text \<open>
  Lines 543 to 557: the loop over the elements of the attribute, from \<open>i\<close> on. \<open>base\<close> is
  \<open>offset_in_buffer[stream_index]\<close>; the pointer is \<open>None\<close> when that element was never
  written.
\<close>

function attribute_elements ::
  "'r vtx_env \<Rightarrow> SceGxmVertexAttribute \<Rightarrow> SceGxmVertexStream \<Rightarrow> nat \<Rightarrow>
   nat \<times> nat \<times> bool \<times> nat \<times> nat \<Rightarrow> nat option \<Rightarrow> nat \<Rightarrow> event list" where
  "attribute_elements env attribute stream attrib_location
     (component_count, type, upload_integral, array_size, array_element_size) base i =
     (if i < array_size then
        [if upload_integral \<or> format attribute = SCE_GXM_ATTRIBUTE_FORMAT_UNTYPED env
         then GlVertexAttribIPointer (int attrib_location + int i) component_count type
                (stride stream)
                (map_option (\<lambda>b. i * array_element_size + offset attribute + b) base)
         else GlVertexAttribPointer (int attrib_location + int i) component_count type
                (attribute_format_normalised env (format attribute)) (stride stream)
                (map_option (\<lambda>b. i * array_element_size + offset attribute + b) base),
         GlEnableVertexAttribArray (int attrib_location + int i),
         GlVertexAttribDivisor (int attrib_location + int i)
           (if is_stream_instancing env (indexSource stream) then 1 else 0)]
        @ attribute_elements env attribute stream attrib_location
            (component_count, type, upload_integral, array_size, array_element_size) base (i + 1)
      else [])"
  by pat_completeness auto
termination
  by (relation "measure (\<lambda>(e, a, s, l, (c, t, u, n, z), b, i). n - i)") auto

declare attribute_elements.simps [simp del]

text \<open>
  Lines 493 to 557: one attribute. Reading \<open>vertex_program.streams\<close> or
  \<open>offset_in_buffer\<close> beyond its end is the error \<open>OutOfBounds\<close>.
\<close>

definition sync_attribute ::
  "'r vtx_env \<Rightarrow> SceGxmVertexProgram \<Rightarrow> GLVertexProgram \<Rightarrow> nat option list \<Rightarrow>
   SceGxmVertexAttribute \<Rightarrow> error + event list" where
  "sync_attribute env vp glvert offset_in_buffer attribute =
     (case attribute_infos glvert (regIndex attribute) of
        None \<Rightarrow> Inr []
      | Some info \<Rightarrow>
          if streamIndex attribute \<ge> length (streams vp)
             \<or> streamIndex attribute \<ge> length offset_in_buffer
          then Inl OutOfBounds
          else Inr (attribute_elements env attribute (streams vp ! streamIndex attribute)
                      (location info) (attribute_layout env info attribute)
                      (offset_in_buffer ! streamIndex attribute) 0))"

text \<open>Lines 492 to 558: the loop over the attributes of the vertex program.\<close>

fun sync_attributes ::
  "'r vtx_env \<Rightarrow> SceGxmVertexProgram \<Rightarrow> GLVertexProgram \<Rightarrow> nat option list \<Rightarrow>
   SceGxmVertexAttribute list \<Rightarrow> error + event list" where
  "sync_attributes env vp glvert offset_in_buffer [] = Inr []"
| "sync_attributes env vp glvert offset_in_buffer (a # as) =
     (case sync_attribute env vp glvert offset_in_buffer a of
        Inl e \<Rightarrow> Inl e
      | Inr events \<Rightarrow>
          (case sync_attributes env vp glvert offset_in_buffer as of
             Inl e \<Rightarrow> Inl e
           | Inr events' \<Rightarrow> Inr (events @ events')))"

text \<open>
  \<open>sync_vertex_streams_and_attributes\<close>, lines 453 to 560. \<open>ring\<close> is
  \<open>context.vertex_stream_ring_buffer\<close>. The result is the ring buffer, the record state and
  the calls made, or the error that stops the program.
\<close>

definition sync_vertex_streams_and_attributes ::
  "'r vtx_env \<Rightarrow> 'r \<Rightarrow> GxmRecordState \<Rightarrow> error + ('r \<times> GxmRecordState \<times> event list)" where
  "sync_vertex_streams_and_attributes env ring state =
     (let vp = vertex_program state;
          glvert = check_stripped_symbols vp
      in case stage_streams env ring 0 (vertex_streams state) of
           (ring1, streams1, offset_in_buffer, events1) \<Rightarrow>
             (case sync_attributes env vp glvert offset_in_buffer (attributes vp) of
                Inl e \<Rightarrow> Inl e
              | Inr events2 \<Rightarrow>
                  Inr (ring1,
                       state\<lparr>vertex_program := vp\<lparr>renderer_data := glvert\<rparr>,
                             vertex_streams := streams1\<rparr>,
                       events1 @ [GlBindBuffer GL_ARRAY_BUFFER (handle env ring1)]
                       @ events2 @ [GlBindBuffer GL_ARRAY_BUFFER 0])))"

section \<open>Notions used by the properties\<close>

text \<open>The two early returns of \<open>sync_texture\<close>, lines 280 and 287.\<close>

definition aborts_early :: "'s tex_env \<Rightarrow> SceGxmTexture \<Rightarrow> bool" where
  "aborts_early env texture \<longleftrightarrow>
     \<not> is_valid_addr_range env (texture_address texture) (texture_address texture + tex_size texture)
     \<or> (is_paletted_format env (get_base_format env (tex_format texture)) \<and> palette_addr texture = 0)"

fun is_surface_cache_lookup :: "event \<Rightarrow> bool" where
  "is_surface_cache_lookup (RetrieveColorSurfaceTextureHandle w h s f a) = True"
| "is_surface_cache_lookup (RetrieveDepthStencilTextureHandle a w h) = True"
| "is_surface_cache_lookup _ = False"

text \<open>
  The address of the texture bound to each unit after a resolution of unit \<open>index\<close>, given
  the addresses \<open>bound\<close> before it: a resolution that returns early leaves the binding of
  the unit as it was, any other binds the texture resolved (or the surface at its address).
\<close>

definition bound_address_after ::
  "'s tex_env \<Rightarrow> (nat \<Rightarrow> nat) \<Rightarrow> nat \<Rightarrow> SceGxmTexture \<Rightarrow> nat \<Rightarrow> nat" where
  "bound_address_after env bound index texture =
     (if aborts_early env texture then bound else bound(index := texture_address texture))"

text \<open>
  What a call that returns leaves behind: the context of \<open>sync_texture\<close> or the record state
  of \<open>sync_vertex_streams_and_attributes\<close>, and the calls made.
\<close>

definition context_after :: "error + ('s \<times> 'c \<times> event list) \<Rightarrow> 'c option" where
  "context_after r = (case r of Inl e \<Rightarrow> None | Inr (state, context, events) \<Rightarrow> Some context)"

definition events_after :: "error + ('s \<times> 'c \<times> event list) \<Rightarrow> event list option" where
  "events_after r = (case r of Inl e \<Rightarrow> None | Inr (state, context, events) \<Rightarrow> Some events)"

text \<open>
  The remapping of one output channel as the specification words it: a fixed value passes
  through, a colour channel becomes the host channel of the first position of the surface's
  swizzle that holds it, and nothing is set when no position holds it.
\<close>

definition channel_remap :: "swizzle \<Rightarrow> swizzle \<Rightarrow> nat \<Rightarrow> event list" where
  "channel_remap swizzle_surface swz i =
     (if sw_at swz i \<notin> {GL_RED, GL_GREEN, GL_BLUE, GL_ALPHA}
      then [GlTexParameteri GL_TEXTURE_2D (GL_TEXTURE_SWIZZLE_R + i) (sw_at swz i)]
      else (case List.find (\<lambda>j. sw_at swizzle_surface j = sw_at swz i) [0, 1, 2, 3] of
              None \<Rightarrow> []
            | Some j \<Rightarrow> [GlTexParameteri GL_TEXTURE_2D (GL_TEXTURE_SWIZZLE_R + i) (GL_RED + int j)]))"

text \<open>
  The ring buffer as the staging loop finds it when it reaches stream \<open>k\<close>: every earlier
  stream with data has had its allocation.
\<close>

fun ring_before :: "'r vtx_env \<Rightarrow> 'r \<Rightarrow> GXMStreamInfo list \<Rightarrow> nat \<Rightarrow> 'r" where
  "ring_before env ring ss 0 = ring"
| "ring_before env ring [] (Suc k) = ring"
| "ring_before env ring (s # ss) (Suc k) =
     ring_before env
       (if stream_data s \<noteq> 0 then snd (allocate env ring (stream_size s)) else ring) ss k"

text \<open>The calls the staging loop makes for stream \<open>k\<close> of \<open>ss\<close>, the first stream having index \<open>i\<close>.\<close>

definition stream_events :: "'r vtx_env \<Rightarrow> 'r \<Rightarrow> GXMStreamInfo list \<Rightarrow> nat \<Rightarrow> nat \<Rightarrow> event list" where
  "stream_events env ring ss i k =
     (if stream_data (ss ! k) \<noteq> 0
      then [RingAllocate (i + k) (stream_size (ss ! k)),
            (case fst (allocate env (ring_before env ring ss k) (stream_size (ss ! k))) of
               None \<Rightarrow> LogError ''Failed to allocate vertex stream data from GPU!''
             | Some off \<Rightarrow> Memcpy off (stream_data (ss ! k)) (stream_size (ss ! k)))]
      else [])"

text \<open>
  The calls for one attribute as the specification words them: none without a known
  location; otherwise, for each element \<open>i\<close> of the attribute, the pointer at
  \<open>i * element_stride + offset + base\<close>, the enable and the divisor.
\<close>

definition attribute_calls ::
  "'r vtx_env \<Rightarrow> SceGxmVertexProgram \<Rightarrow> GLVertexProgram \<Rightarrow> nat option list \<Rightarrow>
   SceGxmVertexAttribute \<Rightarrow> event list" where
  "attribute_calls env vp glvert offsets a =
     (case attribute_infos glvert (regIndex a) of
        None \<Rightarrow> []
      | Some info \<Rightarrow>
          (case attribute_layout env info a of
             (component_count, type, integral, array_size, element_stride) \<Rightarrow>
               concat (map (\<lambda>i.
                 [if integral \<or> format a = SCE_GXM_ATTRIBUTE_FORMAT_UNTYPED env
                  then GlVertexAttribIPointer (int (location info) + int i) component_count type
                         (stride (streams vp ! streamIndex a))
                         (map_option (\<lambda>base. i * element_stride + offset a + base)
                            (offsets ! streamIndex a))
                  else GlVertexAttribPointer (int (location info) + int i) component_count type
                         (attribute_format_normalised env (format a))
                         (stride (streams vp ! streamIndex a))
                         (map_option (\<lambda>base. i * element_stride + offset a + base)
                            (offsets ! streamIndex a)),
                  GlEnableVertexAttribArray (int (location info) + int i),
                  GlVertexAttribDivisor (int (location info) + int i)
                    (if is_stream_instancing env (indexSource (streams vp ! streamIndex a))
                     then 1 else 0)])
                 [0..<array_size])))"

section \<open>Concrete instances\<close>

text \<open>
  An instance of the parameters of \<open>sync_texture\<close>: memory is valid below 65536, format 7 is
  paletted, base format 3 converts to colour format 10, the surface cache holds a colour
  surface at address 8192 (handle 5) and a depth-stencil surface at address 12288 (handle 9),
  and its state counts the calls.
\<close>

definition ex_env :: "nat tex_env" where
  "ex_env =
     \<lparr>is_valid_addr_range = (\<lambda>start end. end \<le> 65536),
      get_base_format = (\<lambda>f. f),
      is_paletted_format = (\<lambda>b. b = 7),
      convert_base_texture_format_to_base_color_format = (\<lambda>b. if b = 3 then Some 10 else None),
      bits_per_pixel = (\<lambda>b. 32),
      color_translate_swizzle = (\<lambda>f. Some (Swizzle GL_RED GL_GREEN GL_BLUE GL_ALPHA)),
      texture_translate_swizzle = (\<lambda>f. Some (Swizzle GL_BLUE GL_GREEN GL_RED GL_ALPHA)),
      is_write_surface_non_linearity_filtering = (\<lambda>f. False),
      retrieve_color_surface_texture_handle =
        (\<lambda>s w h stride f addr. (if addr = 8192 then 5 else 0, 0, s + 1)),
      retrieve_depth_stencil_texture_handle =
        (\<lambda>s addr w h. (if addr = 12288 then 9 else 0, s + 1)),
      cache_and_bind_texture = (\<lambda>s t. s + 100),
      bind_texture = (\<lambda>s t. s + 1000),
      SCE_GXM_MAX_TEXTURE_UNITS = 16,
      SCE_GXM_TEXTURE_BASE_FORMAT_X8U24 = 21\<rparr>"

text \<open>A linear texture of 100 by 32 pixels at the address \<open>4 * word_addr\<close>.\<close>

definition ex_texture :: "nat \<Rightarrow> nat \<Rightarrow> nat \<Rightarrow> SceGxmTexture" where
  "ex_texture word_addr fmt bytes =
     \<lparr>data_addr = word_addr, palette_addr = 0, texture_type = SCE_GXM_TEXTURE_LINEAR,
      tex_format = fmt, tex_width = 100, tex_height = 32, tex_stride_in_bytes = 480,
      tex_size = bytes\<rparr>"

text \<open>The same texture at address 8192 in another layout.\<close>

definition ex_layout_texture :: "SceGxmTextureType \<Rightarrow> SceGxmTexture" where
  "ex_layout_texture layout = (ex_texture 2048 3 8192)\<lparr>texture_type := layout\<rparr>"

text \<open>A context whose colour surface is at address 4096.\<close>

definition ex_context :: "nat \<Rightarrow> nat list \<Rightarrow> GLContext" where
  "ex_context attachment indices =
     \<lparr>color_surface_address = 4096, color_surface_colorFormat = 10,
      current_color_attachment = attachment, self_sampling_indices = indices,
      vertex_textures = (\<lambda>i. 0), fragment_textures = (\<lambda>i. 0),
      fragment_program_parameters = []\<rparr>"

definition ex_config :: Config where
  "ex_config = \<lparr>texture_cache = True, dump_textures = False\<rparr>"

text \<open>The texture address bound to every unit before the resolutions of the examples.\<close>

definition ex_bound_address :: "nat \<Rightarrow> nat" where
  "ex_bound_address u = 4096"

text \<open>
  An instance of the parameters of \<open>sync_vertex_streams_and_attributes\<close>: the ring buffer
  is its next free offset, of a capacity of 1024 bytes; every component has 4 bytes.
\<close>

definition ex_vtx_env :: "nat vtx_env" where
  "ex_vtx_env =
     \<lparr>allocate = (\<lambda>ring n. if ring + n \<le> 1024 then (Some ring, ring + n) else (None, ring)),
      handle = (\<lambda>ring. 7),
      attribute_format_to_gl_type = (\<lambda>f. 5126),
      attribute_format_normalised = (\<lambda>f. False),
      attribute_format_size = (\<lambda>f. 4),
      is_stream_instancing = (\<lambda>source. 2 \<le> source),
      SCE_GXM_ATTRIBUTE_FORMAT_UNTYPED = 16\<rparr>"

definition ex_attribute :: "nat \<Rightarrow> nat \<Rightarrow> nat \<Rightarrow> nat \<Rightarrow> SceGxmVertexAttribute" where
  "ex_attribute s off n reg =
     \<lparr>streamIndex = s, offset = off, format = 0, componentCount = n, regIndex = reg\<rparr>"

text \<open>
  A vertex program with three attributes: three floats of stream 0 at location 0, a
  register-formatted attribute of five components of stream 1 at location 1, and an
  attribute of register 9, which has no location.
\<close>

definition ex_vertex_program :: SceGxmVertexProgram where
  "ex_vertex_program =
     \<lparr>attributes = [ex_attribute 0 4 3 0, ex_attribute 1 0 5 4, ex_attribute 7 0 1 9],
      streams = [\<lparr>stride = 16, indexSource = 0\<rparr>, \<lparr>stride = 32, indexSource = 2\<rparr>],
      program_primary_reg_count = Some 0,
      renderer_data =
        \<lparr>stripped_symbols_checked = True,
         attribute_infos =
           [0 \<mapsto> \<lparr>location = 0, gxm_type = SCE_GXM_PARAMETER_TYPE_F32, regformat = False\<rparr>,
            4 \<mapsto> \<lparr>location = 1, gxm_type = SCE_GXM_PARAMETER_TYPE_F32, regformat = True\<rparr>]\<rparr>\<rparr>"

text \<open>
  Four streams: stream 0 has 48 bytes of data, stream 2 has 2000 bytes, more than the ring
  buffer holds, and streams 1 and 3 have none.
\<close>

definition ex_streams :: "GXMStreamInfo list" where
  "ex_streams =
     [\<lparr>stream_data = 4096, stream_size = 48\<rparr>, \<lparr>stream_data = 0, stream_size = 0\<rparr>,
      \<lparr>stream_data = 8192, stream_size = 2000\<rparr>, \<lparr>stream_data = 0, stream_size = 0\<rparr>]"

definition ex_record_state :: GxmRecordState where
  "ex_record_state = \<lparr>vertex_program = ex_vertex_program, vertex_streams = ex_streams\<rparr>"

text \<open>A draw with the ring buffer at offset 64, and the same draw again with what it left.\<close>

definition ex_first_draw :: "error + (nat \<times> GxmRecordState \<times> event list)" where
  "ex_first_draw = sync_vertex_streams_and_attributes ex_vtx_env 64 ex_record_state"

definition ex_second_draw :: "error + (nat \<times> GxmRecordState \<times> event list)" where
  "ex_second_draw =
     (case ex_first_draw of
        Inl e \<Rightarrow> Inl e
      | Inr (ring1, state1, events1) \<Rightarrow> sync_vertex_streams_and_attributes ex_vtx_env ring1 state1)"

section \<open>Evaluation rules\<close>

lemmas ex_defs = ex_env_def ex_texture_def ex_context_def ex_config_def texture_address_def
  to_u32_def to_u16_def aborts_early_def set_shader_hint_def

lemmas gl_defs = GL_TEXTURE0_def GL_TEXTURE_2D_def GL_RED_def GL_GREEN_def GL_BLUE_def GL_ALPHA_def
  GL_TEXTURE_SWIZZLE_R_def GL_TEXTURE_SWIZZLE_RGBA_def GL_NEAREST_def GL_TEXTURE_MIN_FILTER_def
  GL_TEXTURE_MAG_FILTER_def GL_ARRAY_BUFFER_def GL_INT_def

section \<open>The loops of the swizzle\<close>

lemma swizzle_search_upt:
  "swizzle_search s t i j =
    (case List.find (\<lambda>k. sw_at s k = sw_at t i) [j..<4] of
       None \<Rightarrow> []
     | Some k \<Rightarrow> [GlTexParameteri GL_TEXTURE_2D (GL_TEXTURE_SWIZZLE_R + i) (GL_RED + int k)])"
proof (induction s t i j rule: swizzle_search.induct)
  case (1 s t i j)
  show ?case
  proof (cases "j < 4")
    case True
    then have u: "[j..<4] = j # [j + 1..<4]"
      by (simp add: upt_rec)
    show ?thesis
      using True 1 by (subst swizzle_search.simps) (auto simp: u)
  next
    case False
    then show ?thesis
      by (subst swizzle_search.simps) simp
  qed
qed

lemma colour_channel_iff:
  "(x < GL_RED \<or> x > GL_ALPHA) \<longleftrightarrow> x \<notin> {GL_RED, GL_GREEN, GL_BLUE, GL_ALPHA}"
  by (auto simp: GL_RED_def GL_GREEN_def GL_BLUE_def GL_ALPHA_def)

lemma upt_0_4: "[0..<4] = [0, 1, 2, 3]"
  by (simp add: upt_rec)

lemma swizzle_channels_upt:
  "swizzle_channels s t i = concat (map (channel_remap s t) [i..<4])"
proof (induction s t i rule: swizzle_channels.induct)
  case (1 s t i)
  show ?case
  proof (cases "i < 4")
    case True
    then have u: "[i..<4] = i # [i + 1..<4]"
      by (simp add: upt_rec)
    have "swizzle_channels s t i =
            (if sw_at t i < GL_RED \<or> sw_at t i > GL_ALPHA
             then [GlTexParameteri GL_TEXTURE_2D (GL_TEXTURE_SWIZZLE_R + i) (sw_at t i)]
             else swizzle_search s t i 0) @ swizzle_channels s t (i + 1)"
      using True by (subst swizzle_channels.simps) simp
    also have "\<dots> = channel_remap s t i @ swizzle_channels s t (i + 1)"
      by (simp only: colour_channel_iff channel_remap_def swizzle_search_upt upt_0_4)
    also have "\<dots> = channel_remap s t i @ concat (map (channel_remap s t) [i + 1..<4])"
      by (simp only: 1[OF True])
    finally show ?thesis
      by (simp add: u)
  next
    case False
    then show ?thesis
      by (subst swizzle_channels.simps) simp
  qed
qed

lemmas run_defs = sync_texture_def lookup_surface_def lookup_colour_surface_def stride_in_pixels_def
  align_def bind_resolved_def apply_swizzle_def dump_texture_def Let_def
  swizzle_channels_upt upt_0_4 channel_remap_def

text \<open>
  C5. When \<open>sync_texture\<close> reconciles the swizzle of the texture with the swizzle of the
  surface it binds: if the two are the same four values, it sets the identity mapping (red,
  green, blue, alpha); otherwise it sets, for each of the four channels in turn, the declared
  value itself when that is not one of the four colour channels, and else the host channel
  (\<open>GL_RED\<close> plus the position) of the first position of the surface's swizzle that holds the
  declared channel.
\<close>

theorem apply_swizzle_reconcile:
  "apply_swizzle (Some t) (Some s) =
     (if s = t
      then [GlTexParameteriv GL_TEXTURE_2D GL_TEXTURE_SWIZZLE_RGBA [GL_RED, GL_GREEN, GL_BLUE, GL_ALPHA]]
      else channel_remap s t 0 @ channel_remap s t 1 @ channel_remap s t 2 @ channel_remap s t 3)"
proof -
  have "sw_list s = sw_list t \<longleftrightarrow> s = t"
    by (cases s; cases t) simp
  then show ?thesis
    by (simp add: apply_swizzle_def swizzle_channels_upt upt_0_4)
qed

section \<open>The early returns of \<open>sync_texture\<close>\<close>

lemma set_shader_hint_fields [simp]:
  "color_surface_address (set_shader_hint env context index fmt) = color_surface_address context"
  "color_surface_colorFormat (set_shader_hint env context index fmt) = color_surface_colorFormat context"
  "current_color_attachment (set_shader_hint env context index fmt) = current_color_attachment context"
  "self_sampling_indices (set_shader_hint env context index fmt) = self_sampling_indices context"
  "fragment_program_parameters (set_shader_hint env context index fmt) = fragment_program_parameters context"
  by (simp_all add: set_shader_hint_def)

lemma sync_texture_no_abort:
  "\<not> aborts_early env texture \<Longrightarrow>
   sync_texture env state context index texture config base_path title_id =
     (case lookup_surface env state (set_shader_hint env context index (tex_format texture)) index
             texture (texture_address texture) (get_base_format env (tex_format texture)) of
        Inl e \<Rightarrow> Inl e
      | Inr (texture_as_surface, swizzle_surface, only_nearest, state1, indices, events1) \<Rightarrow>
          (case bind_resolved env config state1 texture (tex_format texture)
                  (get_base_format env (tex_format texture))
                  texture_as_surface swizzle_surface only_nearest of
             (state2, events2) \<Rightarrow>
               Inr (state2,
                    (set_shader_hint env context index (tex_format texture))
                      \<lparr>self_sampling_indices := indices\<rparr>,
                    [GlActiveTexture (to_u32 (GL_TEXTURE0 + index))]
                    @ events1 @ events2
                    @ dump_texture config (set_shader_hint env context index (tex_format texture))
                        index texture base_path title_id
                    @ [GlActiveTexture GL_TEXTURE0])))"
  by (auto simp: sync_texture_def aborts_early_def Let_def)

text \<open>
  C7. When the address range of the texture is not valid, or its format is paletted and
  its palette address is null, \<open>sync_texture\<close> returns with one warning and nothing else:
  no call to OpenGL or to a cache, and the state of the caches and the context (the
  self-sampling indices and the shader hints among them) are what they were.
\<close>

theorem sync_texture_abort:
  assumes "aborts_early env texture"
  shows "sync_texture env state context index texture config base_path title_id
         = Inr (state, context,
                [LogWarn (if \<not> is_valid_addr_range env (texture_address texture)
                                 (texture_address texture + tex_size texture)
                          then ''Texture has freed data.'' else ''Ignoring null palette texture'')])"
  using assms by (auto simp: sync_texture_def aborts_early_def Let_def)

theorem sync_texture_abort_witness:
  "aborts_early ex_env (ex_texture 2048 3 80000)
   \<and> sync_texture ex_env 0 (ex_context 3 [0]) 0 (ex_texture 2048 3 80000) ex_config [] []
       = Inr (0, ex_context 3 [0], [LogWarn ''Texture has freed data.''])
   \<and> aborts_early ex_env (ex_texture 2048 7 8192)
   \<and> sync_texture ex_env 0 (ex_context 3 [0]) 0 (ex_texture 2048 7 8192) ex_config [] []
       = Inr (0, ex_context 3 [0], [LogWarn ''Ignoring null palette texture''])"
proof -
  have h1: "aborts_early ex_env (ex_texture 2048 3 80000)"
    by (simp add: ex_defs)
  have h2: "aborts_early ex_env (ex_texture 2048 7 8192)"
    by (simp add: ex_defs)
  show ?thesis
    using h1 h2
      sync_texture_abort[OF h1, of 0 "ex_context 3 [0]" 0 ex_config "[]" "[]"]
      sync_texture_abort[OF h2, of 0 "ex_context 3 [0]" 0 ex_config "[]" "[]"]
    by (simp add: ex_defs)
qed

section \<open>The texture that is the colour surface\<close>

lemma lookup_surface_same:
  "color_surface_address context = addr \<Longrightarrow>
   lookup_surface env state context index texture addr base_format =
     Inr (current_color_attachment context,
          color_translate_swizzle env (color_surface_colorFormat context), False, state,
          (if index \<in> set (self_sampling_indices context) then self_sampling_indices context
           else self_sampling_indices context @ [to_u32 index]), [])"
  by (simp add: lookup_surface_def)

lemma channel_remap_no_lookup:
  "e \<in> set (channel_remap s t i) \<Longrightarrow> \<not> is_surface_cache_lookup e"
  by (cases "List.find (\<lambda>j. sw_at s j = sw_at t i) [0, 1, 2, 3]")
     (auto simp: channel_remap_def simp del: find.simps split: if_splits)

lemma apply_swizzle_no_lookup: "e \<in> set (apply_swizzle t s) \<Longrightarrow> \<not> is_surface_cache_lookup e"
  by (auto simp: apply_swizzle_def swizzle_channels_upt upt_0_4
           dest: channel_remap_no_lookup split: option.splits if_splits)

lemma bind_resolved_no_lookup:
  "bind_resolved env config state texture fmt bf h sw n = (state', events) \<Longrightarrow>
   e \<in> set events \<Longrightarrow> \<not> is_surface_cache_lookup e"
  by (auto simp: bind_resolved_def dest: apply_swizzle_no_lookup split: if_splits)

lemma dump_texture_no_lookup:
  "e \<in> set (dump_texture config context index texture bp tid) \<Longrightarrow> \<not> is_surface_cache_lookup e"
  by (auto simp: dump_texture_def split: if_splits)

lemma bind_resolved_nonzero:
  "h \<noteq> 0 \<Longrightarrow>
   \<exists>rest. bind_resolved env config state texture fmt bf h sw n
          = (state, GlBindTexture GL_TEXTURE_2D (to_u32 h) # rest)"
  by (simp add: bind_resolved_def)

text \<open>
  C1, as the code has it. When \<open>sync_texture\<close> does not return early and the address of the
  texture is the address of the colour surface (and the unit index fits a \<open>GLuint\<close>), it
  adds the index to the self-sampling indices unless it is among them, and makes no call
  to the surface cache; when the handle of the current colour attachment is not zero it
  binds that handle, right after selecting the unit, and leaves the caches as they were;
  when the handle is zero it binds no surface and hands the texture to the texture cache
  (\<open>cache_and_bind_texture\<close> or \<open>bind_texture\<close>, as the configuration says), and its
  calls are the selection of the unit, that call, the dump if any and the selection of
  unit 0.
\<close>

theorem sync_texture_self_sample:
  assumes no_abort: "\<not> aborts_early env texture"
    and same: "color_surface_address context = texture_address texture"
    and small: "index < 4294967296"
  shows "\<exists>state' context' events.
           sync_texture env state context index texture config base_path title_id
             = Inr (state', context', events)
           \<and> self_sampling_indices context'
               = (if index \<in> set (self_sampling_indices context)
                  then self_sampling_indices context
                  else self_sampling_indices context @ [index])
           \<and> (\<forall>e \<in> set events. \<not> is_surface_cache_lookup e)
           \<and> (current_color_attachment context \<noteq> 0 \<longrightarrow>
                state' = state
                \<and> take 2 events
                    = [GlActiveTexture (to_u32 (GL_TEXTURE0 + index)),
                       GlBindTexture GL_TEXTURE_2D (to_u32 (current_color_attachment context))])
           \<and> (current_color_attachment context = 0 \<longrightarrow>
                state' = (if texture_cache config then cache_and_bind_texture env state texture
                          else bind_texture env state texture)
                \<and> events
                    = [GlActiveTexture (to_u32 (GL_TEXTURE0 + index)),
                       (if texture_cache config then CacheAndBindTexture texture
                        else BindTexture texture)]
                      @ dump_texture config
                          (set_shader_hint env context index (tex_format texture))
                          index texture base_path title_id
                      @ [GlActiveTexture GL_TEXTURE0])"
proof -
  let ?fmt = "tex_format texture"
  let ?bf = "get_base_format env ?fmt"
  let ?c1 = "set_shader_hint env context index ?fmt"
  let ?h = "current_color_attachment context"
  let ?sw = "color_translate_swizzle env (color_surface_colorFormat context)"
  let ?ix = "if index \<in> set (self_sampling_indices context) then self_sampling_indices context
             else self_sampling_indices context @ [index]"
  obtain state2 events2 where
    b: "bind_resolved env config state texture ?fmt ?bf ?h ?sw False = (state2, events2)"
    by (cases "bind_resolved env config state texture ?fmt ?bf ?h ?sw False") auto
  let ?events = "[GlActiveTexture (to_u32 (GL_TEXTURE0 + index))] @ [] @ events2
                 @ dump_texture config ?c1 index texture base_path title_id
                 @ [GlActiveTexture GL_TEXTURE0]"
  have u32: "to_u32 index = index"
    using small by (simp add: to_u32_def)
  have l: "lookup_surface env state ?c1 index texture (texture_address texture) ?bf
           = Inr (?h, ?sw, False, state, ?ix, [])"
    using same by (simp add: lookup_surface_same u32)
  have r: "sync_texture env state context index texture config base_path title_id
           = Inr (state2, ?c1\<lparr>self_sampling_indices := ?ix\<rparr>, ?events)"
    by (simp only: sync_texture_no_abort[OF no_abort] l b sum.case prod.case)
  have ix: "self_sampling_indices (?c1\<lparr>self_sampling_indices := ?ix\<rparr>) = ?ix"
    by simp
  have nl: "\<forall>e \<in> set ?events. \<not> is_surface_cache_lookup e"
    using bind_resolved_no_lookup[OF b] dump_texture_no_lookup by auto
  have bd: "?h \<noteq> 0 \<longrightarrow> state2 = state
            \<and> take 2 ?events = [GlActiveTexture (to_u32 (GL_TEXTURE0 + index)),
                                GlBindTexture GL_TEXTURE_2D (to_u32 ?h)]"
    using bind_resolved_nonzero[of ?h env config state texture ?fmt ?bf ?sw False] b by auto
  have zr: "?h = 0 \<longrightarrow>
              state2 = (if texture_cache config then cache_and_bind_texture env state texture
                        else bind_texture env state texture)
              \<and> ?events
                  = [GlActiveTexture (to_u32 (GL_TEXTURE0 + index)),
                     (if texture_cache config then CacheAndBindTexture texture
                      else BindTexture texture)]
                    @ dump_texture config ?c1 index texture base_path title_id
                    @ [GlActiveTexture GL_TEXTURE0]"
    using b by (auto simp: bind_resolved_def)
  show ?thesis
  proof (intro exI conjI)
    show "sync_texture env state context index texture config base_path title_id
          = Inr (state2, ?c1\<lparr>self_sampling_indices := ?ix\<rparr>, ?events)"
      by (rule r)
    show "self_sampling_indices (?c1\<lparr>self_sampling_indices := ?ix\<rparr>) = ?ix"
      by (rule ix)
    show "\<forall>e \<in> set ?events. \<not> is_surface_cache_lookup e"
      by (rule nl)
    show "?h \<noteq> 0 \<longrightarrow> state2 = state
          \<and> take 2 ?events = [GlActiveTexture (to_u32 (GL_TEXTURE0 + index)),
                              GlBindTexture GL_TEXTURE_2D (to_u32 ?h)]"
      by (rule bd)
    show "?h = 0 \<longrightarrow>
            state2 = (if texture_cache config then cache_and_bind_texture env state texture
                      else bind_texture env state texture)
            \<and> ?events
                = [GlActiveTexture (to_u32 (GL_TEXTURE0 + index)),
                   (if texture_cache config then CacheAndBindTexture texture
                    else BindTexture texture)]
                  @ dump_texture config ?c1 index texture base_path title_id
                  @ [GlActiveTexture GL_TEXTURE0]"
      by (rule zr)
  qed
qed

theorem sync_texture_self_sample_witness:
  "\<not> aborts_early ex_env (ex_texture 1024 3 8192)
   \<and> color_surface_address (ex_context 3 []) = texture_address (ex_texture 1024 3 8192)
   \<and> color_surface_address (ex_context 0 []) = texture_address (ex_texture 1024 3 8192)
   \<and> (0 :: nat) < 4294967296
   \<and> current_color_attachment (ex_context 3 []) \<noteq> 0
   \<and> (\<exists>state' context' events.
         sync_texture ex_env 0 (ex_context 3 []) 0 (ex_texture 1024 3 8192) ex_config [] []
           = Inr (state', context', events)
         \<and> self_sampling_indices context' = [0]
         \<and> (\<forall>e \<in> set events. \<not> is_surface_cache_lookup e)
         \<and> state' = 0
         \<and> take 2 events = [GlActiveTexture GL_TEXTURE0, GlBindTexture GL_TEXTURE_2D 3])
   \<and> current_color_attachment (ex_context 0 []) = 0
   \<and> (\<exists>state' context' events.
         sync_texture ex_env 0 (ex_context 0 []) 0 (ex_texture 1024 3 8192) ex_config [] []
           = Inr (state', context', events)
         \<and> self_sampling_indices context' = [0]
         \<and> (\<forall>e \<in> set events. \<not> is_surface_cache_lookup e)
         \<and> state' = 100
         \<and> events = [GlActiveTexture GL_TEXTURE0, CacheAndBindTexture (ex_texture 1024 3 8192),
                      GlActiveTexture GL_TEXTURE0])"
proof -
  have h1: "\<not> aborts_early ex_env (ex_texture 1024 3 8192)"
    by (simp add: ex_defs)
  have h2: "color_surface_address (ex_context a []) = texture_address (ex_texture 1024 3 8192)" for a
    by (simp add: ex_defs)
  have h3: "(0 :: nat) < 4294967296"
    by simp
  have d: "dump_texture ex_config c 0 t [] [] = []" for c t
    by (simp add: dump_texture_def ex_config_def)
  have a: "\<exists>state' context' events.
         sync_texture ex_env 0 (ex_context 3 []) 0 (ex_texture 1024 3 8192) ex_config [] []
           = Inr (state', context', events)
         \<and> self_sampling_indices context' = [0]
         \<and> (\<forall>e \<in> set events. \<not> is_surface_cache_lookup e)
         \<and> state' = 0
         \<and> take 2 events = [GlActiveTexture GL_TEXTURE0, GlBindTexture GL_TEXTURE_2D 3]"
    using sync_texture_self_sample[OF h1 h2[of 3] h3, of 0 ex_config "[]" "[]"]
    by (simp add: ex_context_def to_u32_def GL_TEXTURE0_def)
  have b: "\<exists>state' context' events.
         sync_texture ex_env 0 (ex_context 0 []) 0 (ex_texture 1024 3 8192) ex_config [] []
           = Inr (state', context', events)
         \<and> self_sampling_indices context' = [0]
         \<and> (\<forall>e \<in> set events. \<not> is_surface_cache_lookup e)
         \<and> state' = 100
         \<and> events = [GlActiveTexture GL_TEXTURE0, CacheAndBindTexture (ex_texture 1024 3 8192),
                      GlActiveTexture GL_TEXTURE0]"
    using sync_texture_self_sample[OF h1 h2[of 0] h3, of 0 ex_config "[]" "[]"]
    by (simp add: ex_context_def to_u32_def GL_TEXTURE0_def d)
       (simp add: ex_config_def ex_env_def)
  show ?thesis
    using h1 h2[of 3] h2[of 0] a b by (simp add: ex_context_def)
qed

text \<open>
  C1 as the claim words it fails on two inputs whose texture is at the address of the colour
  surface. With a colour attachment of handle 0, \<open>sync_texture\<close> binds no surface and hands the
  texture to the texture cache. With data that reaches beyond the valid memory,
  \<open>sync_texture\<close> returns early: it binds nothing and the unit is not added to the
  self-sampling indices.
\<close>

theorem sync_texture_self_sample_counterexample:
  "color_surface_address (ex_context 0 []) = texture_address (ex_texture 1024 3 8192)
   \<and> events_after (sync_texture ex_env 0 (ex_context 0 []) 0 (ex_texture 1024 3 8192) ex_config [] [])
       = Some [GlActiveTexture GL_TEXTURE0, CacheAndBindTexture (ex_texture 1024 3 8192),
               GlActiveTexture GL_TEXTURE0]
   \<and> color_surface_address (ex_context 3 []) = texture_address (ex_texture 1024 3 80000)
   \<and> events_after (sync_texture ex_env 0 (ex_context 3 []) 0 (ex_texture 1024 3 80000) ex_config [] [])
       = Some [LogWarn ''Texture has freed data.'']
   \<and> map_option self_sampling_indices
         (context_after (sync_texture ex_env 0 (ex_context 3 []) 0 (ex_texture 1024 3 80000)
                           ex_config [] []))
       = Some []"
  by (simp add: run_defs ex_defs gl_defs context_after_def events_after_def)

section \<open>The self-sampling indices\<close>

lemma lookup_surface_indices:
  assumes "lookup_surface env state context index texture addr bf
           = Inr (hnd, sw, nearest, state', indices, events)"
  shows "indices =
           (if color_surface_address context = addr
            then (if index \<in> set (self_sampling_indices context) then self_sampling_indices context
                  else self_sampling_indices context @ [to_u32 index])
            else remove1 (to_u32 index) (self_sampling_indices context))"
  using assms
  by (auto simp: lookup_surface_def Let_def split: if_splits sum.splits prod.splits)

lemma sync_texture_indices:
  assumes no_abort: "\<not> aborts_early env texture"
    and small: "index < 4294967296"
    and result: "sync_texture env state context index texture config base_path title_id
                 = Inr (state', context', events)"
  shows "color_surface_address context' = color_surface_address context
         \<and> self_sampling_indices context' =
             (if color_surface_address context = texture_address texture
              then (if index \<in> set (self_sampling_indices context) then self_sampling_indices context
                    else self_sampling_indices context @ [index])
              else remove1 index (self_sampling_indices context))"
proof -
  let ?c1 = "set_shader_hint env context index (tex_format texture)"
  let ?l = "lookup_surface env state ?c1 index texture (texture_address texture)
              (get_base_format env (tex_format texture))"
  have u32: "to_u32 index = index"
    using small by (simp add: to_u32_def)
  from result obtain hnd sw nearest state1 indices events1 where
    l: "?l = Inr (hnd, sw, nearest, state1, indices, events1)"
    and c: "context' = ?c1\<lparr>self_sampling_indices := indices\<rparr>"
    unfolding sync_texture_no_abort[OF no_abort]
    by (auto split: sum.splits prod.splits)
  show ?thesis
    using lookup_surface_indices[OF l] c by (simp add: u32)
qed

lemma sync_texture_early_return:
  assumes "aborts_early env texture"
    and "sync_texture env state context index texture config base_path title_id
         = Inr (state', context', events)"
  shows "context' = context"
  using assms by (auto simp: sync_texture_def aborts_early_def Let_def split: if_splits)

text \<open>
  C2. Let \<open>bound\<close> give the address of the texture bound to each unit, every unit among the
  self-sampling indices (a list without duplicates) having its texture at the address of the
  colour surface. After a resolution of unit \<open>index\<close> that returns, early or not, the same
  holds of the addresses then bound: an early return leaves both the binding and the indices
  as they were; otherwise the index is among the indices afterwards exactly as the address
  of its texture demands, the other units staying as they were. The address of the colour
  surface does not change and the list stays without duplicates.
\<close>

theorem self_sampling_invariant:
  assumes small: "index < 4294967296"
    and dist: "distinct (self_sampling_indices context)"
    and inv: "\<forall>u \<in> set (self_sampling_indices context). bound u = color_surface_address context"
    and result: "sync_texture env state context index texture config base_path title_id
                 = Inr (state', context', events)"
  shows "color_surface_address context' = color_surface_address context
         \<and> self_sampling_indices context' =
             (if aborts_early env texture then self_sampling_indices context
              else if color_surface_address context = texture_address texture
              then (if index \<in> set (self_sampling_indices context)
                    then self_sampling_indices context
                    else self_sampling_indices context @ [index])
              else remove1 index (self_sampling_indices context))
         \<and> distinct (self_sampling_indices context')
         \<and> (\<forall>u \<in> set (self_sampling_indices context').
               bound_address_after env bound index texture u = color_surface_address context')"
proof (cases "aborts_early env texture")
  case True
  then have "context' = context"
    using result by (rule sync_texture_early_return)
  then show ?thesis
    using True dist inv by (simp add: bound_address_after_def)
next
  case False
  note i = sync_texture_indices[OF False small result]
  show ?thesis
  proof (cases "color_surface_address context = texture_address texture")
    case True
    then show ?thesis
      using i False dist inv by (auto simp: bound_address_after_def)
  next
    case other: False
    then have "self_sampling_indices context' = remove1 index (self_sampling_indices context)"
      using i by simp
    then show ?thesis
      using i False other dist inv by (auto simp: bound_address_after_def)
  qed
qed

theorem self_sampling_invariant_witness:
  "aborts_early ex_env (ex_texture 2048 3 80000)
   \<and> self_sampling_indices (ex_context 3 [0]) = [0]
   \<and> ex_bound_address 0 = color_surface_address (ex_context 3 [0])
   \<and> map_option self_sampling_indices
        (context_after (sync_texture ex_env 0 (ex_context 3 [0]) 0 (ex_texture 2048 3 80000)
                          ex_config [] []))
       = Some [0]
   \<and> bound_address_after ex_env ex_bound_address 0 (ex_texture 2048 3 80000) 0
       = color_surface_address (ex_context 3 [0])
   \<and> \<not> aborts_early ex_env (ex_texture 2048 3 8192)
   \<and> self_sampling_indices (ex_context 3 [0, 2]) = [0, 2]
   \<and> ex_bound_address 2 = color_surface_address (ex_context 3 [0, 2])
   \<and> map_option self_sampling_indices
        (context_after (sync_texture ex_env 0 (ex_context 3 [0, 2]) 0 (ex_texture 2048 3 8192)
                          ex_config [] []))
       = Some [2]
   \<and> bound_address_after ex_env ex_bound_address 0 (ex_texture 2048 3 8192) 2
       = color_surface_address (ex_context 3 [0, 2])
   \<and> bound_address_after ex_env ex_bound_address 0 (ex_texture 2048 3 8192) 0 = 8192"
proof -
  let ?c = "(ex_context 3 [2])\<lparr>fragment_textures := (\<lambda>i. 0)(0 := 3)\<rparr>"
  let ?e = "[GlActiveTexture 33984, RetrieveColorSurfaceTextureHandle 100 32 104 10 8192,
             GlBindTexture 3553 5,
             GlTexParameteri 3553 36418 6405, GlTexParameteri 3553 36419 6404,
             GlTexParameteri 3553 36420 6403, GlTexParameteri 3553 36421 6406,
             GlActiveTexture 33984]"
  have s: "(0 :: nat) < 4294967296"
    by simp
  have a1: "aborts_early ex_env (ex_texture 2048 3 80000)"
    by (simp add: ex_defs)
  have a2: "distinct (self_sampling_indices (ex_context 3 [0]))"
    by (simp add: ex_defs)
  have a3: "\<forall>u \<in> set (self_sampling_indices (ex_context 3 [0])).
              ex_bound_address u = color_surface_address (ex_context 3 [0])"
    by (simp add: ex_defs ex_bound_address_def)
  have a4: "sync_texture ex_env 0 (ex_context 3 [0]) 0 (ex_texture 2048 3 80000) ex_config [] []
            = Inr (0, ex_context 3 [0], [LogWarn ''Texture has freed data.''])"
    by (simp add: run_defs ex_defs gl_defs)
  have a5: "bound_address_after ex_env ex_bound_address 0 (ex_texture 2048 3 80000) 0
            = color_surface_address (ex_context 3 [0])"
    using self_sampling_invariant[OF s a2 a3 a4] by (simp add: ex_context_def)
  have b1: "\<not> aborts_early ex_env (ex_texture 2048 3 8192)"
    by (simp add: ex_defs)
  have b2: "distinct (self_sampling_indices (ex_context 3 [0, 2]))"
    by (simp add: ex_defs)
  have b3: "\<forall>u \<in> set (self_sampling_indices (ex_context 3 [0, 2])).
              ex_bound_address u = color_surface_address (ex_context 3 [0, 2])"
    by (simp add: ex_defs ex_bound_address_def)
  have b4: "sync_texture ex_env 0 (ex_context 3 [0, 2]) 0 (ex_texture 2048 3 8192) ex_config [] []
            = Inr (1, ?c, ?e)"
    by (simp add: run_defs ex_defs gl_defs)
  have b5: "bound_address_after ex_env ex_bound_address 0 (ex_texture 2048 3 8192) 2
            = color_surface_address (ex_context 3 [0, 2])"
    using self_sampling_invariant[OF s b2 b3 b4] by (simp add: ex_context_def)
  have b6: "bound_address_after ex_env ex_bound_address 0 (ex_texture 2048 3 8192) 0 = 8192"
    by (simp add: bound_address_after_def ex_defs)
  show ?thesis
    using a1 a5 b1 b5 b6
    by (simp add: a4 b4 context_after_def) (simp add: ex_defs ex_bound_address_def)
qed

section \<open>The surface found in the cache\<close>

lemma align_round_up:
  assumes "0 < a" and "v + a \<le> 65536"
  shows "a dvd align v a \<and> v \<le> align v a \<and> align v a < v + a"
proof -
  define q where "q = (v + (a - 1)) div a"
  have le: "q * a \<le> v + (a - 1)"
    unfolding q_def by (simp add: div_times_less_eq_dividend)
  have "v + (a - 1) < q * a + a"
    unfolding q_def using assms(1) by (metis dividend_less_div_times add.commute)
  then have ge: "v \<le> q * a"
    using assms(1) by simp
  have "v + (a - 1) < v + a"
    using assms(1) by simp
  then have lt: "q * a < v + a"
    using le by linarith
  then have "q * a < 65536"
    using assms(2) by linarith
  then have "align v a = q * a"
    by (simp add: align_def to_u16_def q_def)
  then show ?thesis
    using ge lt by simp
qed

text \<open>
  C6. For a texture whose base format converts to a colour format, the surface cache is asked
  for a colour surface with a stride in pixels that follows the layout of the texture: the
  stride in bytes divided by the bytes per pixel of the base format for a linear strided
  texture, the width rounded up to a multiple of 8 for a linear one, and to a multiple of 32
  for a tiled one. The width and the stride in bytes are within 16 bits.
\<close>

theorem colour_lookup_stride:
  assumes conv: "convert_base_texture_format_to_base_color_format env bf = Some ft"
    and w: "tex_width texture \<le> 65504"
    and sb: "tex_stride_in_bytes texture < 65536"
    and bpp: "texture_type texture = SCE_GXM_TEXTURE_LINEAR_STRIDED \<longrightarrow>
              0 < (bits_per_pixel env bf + 7) div 8"
  shows "\<exists>s hnd sw nearest state'.
           lookup_colour_surface env state texture addr bf
             = Inr (hnd, sw, nearest, state',
                    [RetrieveColorSurfaceTextureHandle (tex_width texture) (to_u16 (tex_height texture))
                       s ft addr])
           \<and> (texture_type texture = SCE_GXM_TEXTURE_LINEAR_STRIDED \<longrightarrow>
                s = tex_stride_in_bytes texture div ((bits_per_pixel env bf + 7) div 8))
           \<and> (texture_type texture = SCE_GXM_TEXTURE_LINEAR \<longrightarrow>
                8 dvd s \<and> tex_width texture \<le> s \<and> s < tex_width texture + 8)
           \<and> (texture_type texture = SCE_GXM_TEXTURE_TILED \<longrightarrow>
                32 dvd s \<and> tex_width texture \<le> s \<and> s < tex_width texture + 32)"
proof -
  let ?w = "tex_width texture"
  have w16: "to_u16 ?w = ?w"
    using w by (simp add: to_u16_def)
  have a8: "8 dvd align ?w 8 \<and> ?w \<le> align ?w 8 \<and> align ?w 8 < ?w + 8"
    using w by (intro align_round_up) simp_all
  have a32: "32 dvd align ?w 32 \<and> ?w \<le> align ?w 32 \<and> align ?w 32 < ?w + 32"
    using w by (intro align_round_up) simp_all
  have strided: "texture_type texture = SCE_GXM_TEXTURE_LINEAR_STRIDED \<Longrightarrow>
                 stride_in_pixels env texture bf ?w
                 = Inr (tex_stride_in_bytes texture div ((bits_per_pixel env bf + 7) div 8))"
  proof -
    assume t: "texture_type texture = SCE_GXM_TEXTURE_LINEAR_STRIDED"
    have d: "drop_bit 3 (bits_per_pixel env bf + 7) = (bits_per_pixel env bf + 7) div 8"
      by (simp add: drop_bit_eq_div)
    have "tex_stride_in_bytes texture div ((bits_per_pixel env bf + 7) div 8) < 65536"
      using sb by (meson div_le_dividend le_less_trans)
    then show ?thesis
      using t bpp sb by (simp add: stride_in_pixels_def d to_u16_def Let_def)
  qed
  obtain s where s: "stride_in_pixels env texture bf ?w = Inr s"
    and p1: "texture_type texture = SCE_GXM_TEXTURE_LINEAR_STRIDED \<longrightarrow>
             s = tex_stride_in_bytes texture div ((bits_per_pixel env bf + 7) div 8)"
    and p2: "texture_type texture = SCE_GXM_TEXTURE_LINEAR \<longrightarrow>
             8 dvd s \<and> ?w \<le> s \<and> s < ?w + 8"
    and p3: "texture_type texture = SCE_GXM_TEXTURE_TILED \<longrightarrow>
             32 dvd s \<and> ?w \<le> s \<and> s < ?w + 32"
  proof (cases "texture_type texture")
    case SCE_GXM_TEXTURE_LINEAR_STRIDED
    then show ?thesis
      using strided that by simp
  next
    case SCE_GXM_TEXTURE_LINEAR
    then show ?thesis
      using a8 that[of "align ?w 8"] by (simp add: stride_in_pixels_def)
  next
    case SCE_GXM_TEXTURE_TILED
    then show ?thesis
      using a32 that[of "align ?w 32"] by (simp add: stride_in_pixels_def)
  qed (use that[of ?w] in \<open>simp_all add: stride_in_pixels_def\<close>)
  obtain hnd raw state' where
    r: "retrieve_color_surface_texture_handle env state ?w (to_u16 (tex_height texture)) s ft addr
        = (hnd, raw, state')"
    by (cases "retrieve_color_surface_texture_handle env state ?w (to_u16 (tex_height texture))
                 s ft addr") auto
  have "lookup_colour_surface env state texture addr bf
        = Inr (hnd, color_translate_swizzle env (ft OR raw),
               is_write_surface_non_linearity_filtering env ft, state',
               [RetrieveColorSurfaceTextureHandle ?w (to_u16 (tex_height texture)) s ft addr])"
    by (simp add: lookup_colour_surface_def Let_def conv w16 s r)
  then show ?thesis
    using p1 p2 p3 by blast
qed

theorem colour_lookup_stride_witness:
  "convert_base_texture_format_to_base_color_format ex_env 3 = Some 10
   \<and> tex_width (ex_layout_texture SCE_GXM_TEXTURE_LINEAR) \<le> 65504
   \<and> tex_stride_in_bytes (ex_layout_texture SCE_GXM_TEXTURE_LINEAR) < 65536
   \<and> (0 :: nat) < (bits_per_pixel ex_env 3 + 7) div 8
   \<and> (\<exists>s hnd sw nearest state'.
         lookup_colour_surface ex_env 0 (ex_layout_texture SCE_GXM_TEXTURE_LINEAR_STRIDED) 8192 3
           = Inr (hnd, sw, nearest, state', [RetrieveColorSurfaceTextureHandle 100 32 s 10 8192])
         \<and> s = 120)
   \<and> (\<exists>s hnd sw nearest state'.
         lookup_colour_surface ex_env 0 (ex_layout_texture SCE_GXM_TEXTURE_LINEAR) 8192 3
           = Inr (hnd, sw, nearest, state', [RetrieveColorSurfaceTextureHandle 100 32 s 10 8192])
         \<and> 8 dvd s \<and> 100 \<le> s \<and> s < 108)
   \<and> (\<exists>s hnd sw nearest state'.
         lookup_colour_surface ex_env 0 (ex_layout_texture SCE_GXM_TEXTURE_TILED) 8192 3
           = Inr (hnd, sw, nearest, state', [RetrieveColorSurfaceTextureHandle 100 32 s 10 8192])
         \<and> 32 dvd s \<and> 100 \<le> s \<and> s < 132)"
proof -
  have h1: "convert_base_texture_format_to_base_color_format ex_env 3 = Some 10"
    by (simp add: ex_env_def)
  have h2: "tex_width (ex_layout_texture layout) \<le> 65504" for layout
    by (simp add: ex_layout_texture_def ex_texture_def)
  have h3: "tex_stride_in_bytes (ex_layout_texture layout) < 65536" for layout
    by (simp add: ex_layout_texture_def ex_texture_def)
  have h4: "(0 :: nat) < (bits_per_pixel ex_env 3 + 7) div 8"
    by (simp add: ex_env_def)
  have h4': "texture_type (ex_layout_texture layout) = SCE_GXM_TEXTURE_LINEAR_STRIDED \<longrightarrow>
             0 < (bits_per_pixel ex_env 3 + 7) div 8" for layout
    using h4 by simp
  have f: "tex_width (ex_layout_texture layout) = 100"
    "tex_height (ex_layout_texture layout) = 32"
    "tex_stride_in_bytes (ex_layout_texture layout) = 480"
    "texture_type (ex_layout_texture layout) = layout" for layout
    by (simp_all add: ex_layout_texture_def ex_texture_def)
  have b: "(bits_per_pixel ex_env 3 + 7) div 8 = 4"
    by (simp add: ex_env_def)
  show ?thesis
    using h1 h2 h3 h4
      colour_lookup_stride[OF h1 h2[of SCE_GXM_TEXTURE_LINEAR_STRIDED] h3[of SCE_GXM_TEXTURE_LINEAR_STRIDED]
        h4'[of SCE_GXM_TEXTURE_LINEAR_STRIDED], where state = 0 and addr = 8192]
      colour_lookup_stride[OF h1 h2[of SCE_GXM_TEXTURE_LINEAR] h3[of SCE_GXM_TEXTURE_LINEAR]
        h4'[of SCE_GXM_TEXTURE_LINEAR], where state = 0 and addr = 8192]
      colour_lookup_stride[OF h1 h2[of SCE_GXM_TEXTURE_TILED] h3[of SCE_GXM_TEXTURE_TILED]
        h4'[of SCE_GXM_TEXTURE_TILED], where state = 0 and addr = 8192]
    by (simp add: f b to_u16_def)
qed

text \<open>
  C8. When \<open>sync_texture\<close> does not return early, the texture is not at the address of the
  colour surface, the lookup of a colour surface yields no hnd and the lookup of a
  depth-stencil surface yields one, the surface is bound and its minifying and magnifying
  filters are both set to nearest, whatever \<open>only_nearest\<close> was before.
\<close>

theorem depth_stencil_forces_nearest:
  assumes no_abort: "\<not> aborts_early env texture"
    and other: "color_surface_address context \<noteq> texture_address texture"
    and colour: "lookup_colour_surface env state texture (texture_address texture)
                   (get_base_format env (tex_format texture))
                 = Inr (0, swizzle_surface, only_nearest, state1, events1)"
    and depth: "retrieve_depth_stencil_texture_handle env state1 (texture_address texture)
                  (to_u16 (tex_width texture)) (to_u16 (tex_height texture)) = (hnd, state2)"
    and found: "hnd \<noteq> 0"
  shows "\<exists>context' rest.
           sync_texture env state context index texture config base_path title_id
           = Inr (state2, context',
                  [GlActiveTexture (to_u32 (GL_TEXTURE0 + index))] @ events1
                  @ [RetrieveDepthStencilTextureHandle (texture_address texture)
                       (to_u16 (tex_width texture)) (to_u16 (tex_height texture)),
                     GlBindTexture GL_TEXTURE_2D (to_u32 hnd),
                     GlTexParameteri GL_TEXTURE_2D GL_TEXTURE_MIN_FILTER GL_NEAREST,
                     GlTexParameteri GL_TEXTURE_2D GL_TEXTURE_MAG_FILTER GL_NEAREST]
                  @ rest)"
proof -
  let ?c1 = "set_shader_hint env context index (tex_format texture)"
  let ?bf = "get_base_format env (tex_format texture)"
  let ?ix = "remove1 (to_u32 index) (self_sampling_indices context)"
  let ?ev = "events1 @ [RetrieveDepthStencilTextureHandle (texture_address texture)
                          (to_u16 (tex_width texture)) (to_u16 (tex_height texture))]"
  have l: "lookup_surface env state ?c1 index texture (texture_address texture) ?bf
           = Inr (hnd, swizzle_surface, True, state2, ?ix, ?ev)"
    using other found by (simp add: lookup_surface_def Let_def colour depth)
  let ?sw = "if ?bf \<noteq> SCE_GXM_TEXTURE_BASE_FORMAT_X8U24 env
             then apply_swizzle (texture_translate_swizzle env (tex_format texture)) swizzle_surface
             else []"
  have b: "bind_resolved env config state2 texture (tex_format texture) ?bf hnd swizzle_surface True
           = (state2,
              [GlBindTexture GL_TEXTURE_2D (to_u32 hnd),
               GlTexParameteri GL_TEXTURE_2D GL_TEXTURE_MIN_FILTER GL_NEAREST,
               GlTexParameteri GL_TEXTURE_2D GL_TEXTURE_MAG_FILTER GL_NEAREST] @ ?sw)"
    using found by (simp add: bind_resolved_def)
  have "sync_texture env state context index texture config base_path title_id
        = Inr (state2, ?c1\<lparr>self_sampling_indices := ?ix\<rparr>,
               [GlActiveTexture (to_u32 (GL_TEXTURE0 + index))] @ events1
               @ [RetrieveDepthStencilTextureHandle (texture_address texture)
                    (to_u16 (tex_width texture)) (to_u16 (tex_height texture)),
                  GlBindTexture GL_TEXTURE_2D (to_u32 hnd),
                  GlTexParameteri GL_TEXTURE_2D GL_TEXTURE_MIN_FILTER GL_NEAREST,
                  GlTexParameteri GL_TEXTURE_2D GL_TEXTURE_MAG_FILTER GL_NEAREST]
               @ (?sw @ dump_texture config ?c1 index texture base_path title_id
                  @ [GlActiveTexture GL_TEXTURE0]))"
    by (simp add: sync_texture_no_abort[OF no_abort] l b)
  then show ?thesis
    by blast
qed

theorem depth_stencil_forces_nearest_witness:
  "\<not> aborts_early ex_env (ex_texture 3072 3 8192)
   \<and> color_surface_address (ex_context 3 [0]) \<noteq> texture_address (ex_texture 3072 3 8192)
   \<and> lookup_colour_surface ex_env 0 (ex_texture 3072 3 8192) (texture_address (ex_texture 3072 3 8192))
        (get_base_format ex_env (tex_format (ex_texture 3072 3 8192)))
       = Inr (0, Some (Swizzle GL_RED GL_GREEN GL_BLUE GL_ALPHA), False, 1,
              [RetrieveColorSurfaceTextureHandle 100 32 104 10 12288])
   \<and> retrieve_depth_stencil_texture_handle ex_env 1 (texture_address (ex_texture 3072 3 8192))
        (to_u16 (tex_width (ex_texture 3072 3 8192))) (to_u16 (tex_height (ex_texture 3072 3 8192)))
       = (9, 2)
   \<and> (9 :: nat) \<noteq> 0
   \<and> (\<exists>context' rest.
         sync_texture ex_env 0 (ex_context 3 [0]) 0 (ex_texture 3072 3 8192) ex_config [] []
         = Inr (2, context',
                [GlActiveTexture GL_TEXTURE0,
                 RetrieveColorSurfaceTextureHandle 100 32 104 10 12288,
                 RetrieveDepthStencilTextureHandle 12288 100 32,
                 GlBindTexture GL_TEXTURE_2D 9,
                 GlTexParameteri GL_TEXTURE_2D GL_TEXTURE_MIN_FILTER GL_NEAREST,
                 GlTexParameteri GL_TEXTURE_2D GL_TEXTURE_MAG_FILTER GL_NEAREST]
                @ rest))"
proof -
  have h1: "\<not> aborts_early ex_env (ex_texture 3072 3 8192)"
    by (simp add: ex_defs)
  have h2: "color_surface_address (ex_context 3 [0]) \<noteq> texture_address (ex_texture 3072 3 8192)"
    by (simp add: ex_defs)
  have h3: "lookup_colour_surface ex_env 0 (ex_texture 3072 3 8192)
              (texture_address (ex_texture 3072 3 8192))
              (get_base_format ex_env (tex_format (ex_texture 3072 3 8192)))
            = Inr (0, Some (Swizzle GL_RED GL_GREEN GL_BLUE GL_ALPHA), False, 1,
                   [RetrieveColorSurfaceTextureHandle 100 32 104 10 12288])"
    by (simp add: lookup_colour_surface_def stride_in_pixels_def align_def ex_defs)
  have h4: "retrieve_depth_stencil_texture_handle ex_env 1 (texture_address (ex_texture 3072 3 8192))
              (to_u16 (tex_width (ex_texture 3072 3 8192)))
              (to_u16 (tex_height (ex_texture 3072 3 8192)))
            = (9, 2)"
    by (simp add: ex_defs)
  have h5: "(9 :: nat) \<noteq> 0"
    by simp
  show ?thesis
    using h1 h2 h3 h4
      depth_stencil_forces_nearest[OF h1 h2 h3 h4 h5, of 0 ex_config "[]" "[]"]
    by (simp add: ex_texture_def texture_address_def to_u32_def to_u16_def GL_TEXTURE0_def)
qed

section \<open>The staging loop\<close>

lemma stage_streams_lengths:
  "stage_streams env ring i ss = (ring', ss', offs, evs) \<Longrightarrow>
   length ss' = length ss \<and> length offs = length ss"
  by (induction ss arbitrary: ring i ring' ss' offs evs)
     (auto split: if_splits prod.splits)

lemma stage_streams_events:
  "stage_streams env ring i ss = (ring', ss', offs, evs) \<Longrightarrow>
   evs = concat (map (stream_events env ring ss i) [0..<length ss])"
proof (induction ss arbitrary: ring i ring' ss' offs evs)
  case Nil
  then show ?case by simp
next
  case (Cons s ss)
  have shift: "\<And>r. map (stream_events env ring (s # ss) i) (map Suc [0..<length ss])
                = map (stream_events env
                         (if stream_data s \<noteq> 0 then snd (allocate env ring (stream_size s)) else ring)
                         ss (i + 1)) [0..<length ss]"
    by (simp add: stream_events_def cong: option.case_cong)
  have upt: "[0..<length (s # ss)] = 0 # map Suc [0..<length ss]"
    by (simp add: upt_conv_Cons map_Suc_upt del: upt_Suc)
  show ?case
  proof (cases "stream_data s \<noteq> 0")
    case True
    obtain result ring1 where a: "allocate env ring (stream_size s) = (result, ring1)"
      by (cases "allocate env ring (stream_size s)") auto
    obtain ring2 ss2 offs2 evs2 where
      r: "stage_streams env ring1 (i + 1) ss = (ring2, ss2, offs2, evs2)"
      by (cases "stage_streams env ring1 (i + 1) ss") auto
    have "evs2 = concat (map (stream_events env ring1 ss (i + 1)) [0..<length ss])"
      using Cons.IH[OF r] .
    moreover have "evs = RingAllocate i (stream_size s)
                    # (case result of
                         None \<Rightarrow> LogError ''Failed to allocate vertex stream data from GPU!''
                       | Some off \<Rightarrow> Memcpy off (stream_data s) (stream_size s))
                    # evs2"
      using Cons.prems True a r by simp
    ultimately show ?thesis
      using True a by (simp only: upt list.map concat.simps shift)
         (simp add: stream_events_def cong: option.case_cong)
  next
    case False
    obtain ring2 ss2 offs2 evs2 where
      r: "stage_streams env ring (i + 1) ss = (ring2, ss2, offs2, evs2)"
      by (cases "stage_streams env ring (i + 1) ss") auto
    have "evs2 = concat (map (stream_events env ring ss (i + 1)) [0..<length ss])"
      using Cons.IH[OF r] .
    moreover have "evs = evs2"
      using Cons.prems False r by simp
    ultimately show ?thesis
      using False by (simp only: upt list.map concat.simps shift)
         (simp add: stream_events_def cong: option.case_cong)
  qed
qed

lemma stage_streams_nth:
  "stage_streams env ring i ss = (ring', ss', offs, evs) \<Longrightarrow> k < length ss \<Longrightarrow>
   (if stream_data (ss ! k) \<noteq> 0
    then ss' ! k = (ss ! k)\<lparr>stream_data := 0, stream_size := 0\<rparr>
         \<and> offs ! k = fst (allocate env (ring_before env ring ss k) (stream_size (ss ! k)))
    else ss' ! k = ss ! k \<and> offs ! k = Some 0)"
proof (induction ss arbitrary: ring i ring' ss' offs evs k)
  case Nil
  then show ?case by simp
next
  case (Cons s ss)
  show ?case
  proof (cases k)
    case 0
    then show ?thesis
      using Cons.prems by (auto split: if_splits prod.splits option.splits)
  next
    case (Suc m)
    then have m: "m < length ss"
      using Cons.prems by simp
    show ?thesis
    proof (cases "stream_data s \<noteq> 0")
      case True
      obtain result ring1 where a: "allocate env ring (stream_size s) = (result, ring1)"
        by (cases "allocate env ring (stream_size s)") auto
      obtain ring2 ss2 offs2 evs2 where
        r: "stage_streams env ring1 (i + 1) ss = (ring2, ss2, offs2, evs2)"
        by (cases "stage_streams env ring1 (i + 1) ss") auto
      have "ss' = s\<lparr>stream_data := 0, stream_size := 0\<rparr> # ss2" and "\<exists>x. offs = x # offs2"
        using Cons.prems True a r by auto
      then show ?thesis
        using Cons.IH[OF r m] True a Suc by auto
    next
      case False
      obtain ring2 ss2 offs2 evs2 where
        r: "stage_streams env ring (i + 1) ss = (ring2, ss2, offs2, evs2)"
        by (cases "stage_streams env ring (i + 1) ss") auto
      have "ss' = s # ss2" and "offs = Some 0 # offs2"
        using Cons.prems False r by auto
      then show ?thesis
        using Cons.IH[OF r m] False Suc by auto
    qed
  qed
qed

lemma stage_streams_idle:
  "\<forall>s \<in> set ss. stream_data s = 0 \<Longrightarrow>
   stage_streams env ring i ss = (ring, ss, replicate (length ss) (Some 0), [])"
  by (induction ss arbitrary: i) auto

lemma stage_streams_cleared:
  "stage_streams env ring i ss = (ring', ss', offs, evs) \<Longrightarrow> \<forall>s \<in> set ss'. stream_data s = 0"
  by (induction ss arbitrary: ring i ring' ss' offs evs)
     (auto split: if_splits prod.splits)

section \<open>The attribute loops\<close>

lemma attribute_elements_upt:
  "attribute_elements env a stream loc (cc, ty, ui, n, es) base i =
     concat (map (\<lambda>i.
       [if ui \<or> format a = SCE_GXM_ATTRIBUTE_FORMAT_UNTYPED env
        then GlVertexAttribIPointer (int loc + int i) cc ty (stride stream)
               (map_option (\<lambda>b. i * es + offset a + b) base)
        else GlVertexAttribPointer (int loc + int i) cc ty
               (attribute_format_normalised env (format a)) (stride stream)
               (map_option (\<lambda>b. i * es + offset a + b) base),
        GlEnableVertexAttribArray (int loc + int i),
        GlVertexAttribDivisor (int loc + int i)
          (if is_stream_instancing env (indexSource stream) then 1 else 0)])
       [i..<n])"
proof (induction env a stream loc "(cc, ty, ui, n, es)" base i rule: attribute_elements.induct)
  case (1 env a stream loc base i)
  show ?case
  proof (cases "i < n")
    case True
    then have u: "[i..<n] = i # [i + 1..<n]"
      by (simp add: upt_rec)
    show ?thesis
      using True 1 by (subst attribute_elements.simps) (simp add: u)
  next
    case False
    then show ?thesis
      by (subst attribute_elements.simps) simp
  qed
qed

lemma sync_attribute_calls:
  assumes "attribute_infos glvert (regIndex a) \<noteq> None \<longrightarrow>
           streamIndex a < length (streams vp) \<and> streamIndex a < length offsets"
  shows "sync_attribute env vp glvert offsets a = Inr (attribute_calls env vp glvert offsets a)"
proof (cases "attribute_infos glvert (regIndex a)")
  case None
  then show ?thesis
    by (simp add: sync_attribute_def attribute_calls_def)
next
  case (Some info)
  obtain cc ty ui n es where l: "attribute_layout env info a = (cc, ty, ui, n, es)"
    by (cases "attribute_layout env info a") auto
  show ?thesis
    using assms Some
    by (simp add: sync_attribute_def attribute_calls_def l attribute_elements_upt)
qed

lemma sync_attributes_calls:
  assumes "\<forall>a \<in> set as. attribute_infos glvert (regIndex a) \<noteq> None \<longrightarrow>
             streamIndex a < length (streams vp) \<and> streamIndex a < length offsets"
  shows "sync_attributes env vp glvert offsets as
         = Inr (concat (map (attribute_calls env vp glvert offsets) as))"
  using assms
proof (induction as)
  case Nil
  then show ?case by simp
next
  case (Cons a as)
  then show ?case
    by (simp add: sync_attribute_calls)
qed

lemma regformat_component_count:
  assumes "0 \<le> cs" and "cs * int cc \<le> 1020"
  shows "to_u8 (c_div (cs * int cc + 3) 4) = nat \<lceil>real_of_int (cs * int cc) / 4\<rceil>"
proof -
  let ?x = "cs * int cc"
  have x: "0 \<le> ?x"
    using assms(1) by simp
  then have c: "c_div (?x + 3) 4 = (?x + 3) div 4"
    by (simp add: c_div_def sgn_if)
  have b: "0 \<le> (?x + 3) div 4" "(?x + 3) div 4 < 256"
    using x assms(2) by auto
  have "\<lceil>real_of_int ?x / 4\<rceil> = - (- ?x div 4)"
    using ceiling_divide_eq_div[of ?x 4] by simp
  also have "\<dots> = (?x + 3) div 4"
    by presburger
  finally have "\<lceil>real_of_int ?x / 4\<rceil> = (?x + 3) div 4" .
  then show ?thesis
    using b by (simp add: to_u8_def c)
qed

lemma ceiling_quarter_nat: "nat \<lceil>real n / 4\<rceil> = (n + 3) div 4"
proof -
  have "\<lceil>real n / 4\<rceil> = - (- int n div 4)"
    using ceiling_divide_eq_div[of "int n" 4] by simp
  also have "\<dots> = (int n + 3) div 4"
    by presburger
  finally show ?thesis
    by (simp add: nat_div_distrib nat_add_distrib)
qed

text \<open>
  C4. For a register-formatted attribute whose component size is not negative and whose
  components take at most 1020 bytes, let \<open>effective\<close> be the bytes of the components divided
  by 4 and rounded up. When \<open>effective\<close> is at most 4, one location is bound, as an integer
  attribute of \<open>effective\<close> components; otherwise \<open>effective\<close> divided by 4 and rounded up
  gives the number of consecutive locations bound, each an integer attribute of 4
  components, 16 bytes after the one before.
\<close>

theorem regformat_attribute_locations:
  assumes info: "attribute_infos glvert (regIndex a) = Some info"
    and reg: "regformat info"
    and rng: "streamIndex a < length (streams vp)" "streamIndex a < length offsets"
    and size: "0 \<le> attribute_format_size env (format a)"
      "attribute_format_size env (format a) * int (componentCount a) \<le> 1020"
  shows "sync_attribute env vp glvert offsets a =
     Inr (let effective =
                nat \<lceil>real_of_int (attribute_format_size env (format a) * int (componentCount a)) / 4\<rceil>;
              loc = int (location info);
              stream = streams vp ! streamIndex a;
              divisor = (if is_stream_instancing env (indexSource stream) then 1 else 0)
          in if effective \<le> 4
             then [GlVertexAttribIPointer loc effective GL_INT (stride stream)
                     (map_option (\<lambda>base. offset a + base) (offsets ! streamIndex a)),
                   GlEnableVertexAttribArray loc,
                   GlVertexAttribDivisor loc divisor]
             else concat (map (\<lambda>i.
                    [GlVertexAttribIPointer (loc + int i) 4 GL_INT (stride stream)
                       (map_option (\<lambda>base. i * 16 + offset a + base) (offsets ! streamIndex a)),
                     GlEnableVertexAttribArray (loc + int i),
                     GlVertexAttribDivisor (loc + int i) divisor])
                    [0..<nat \<lceil>real effective / 4\<rceil>]))"
proof -
  define e where
    "e = nat \<lceil>real_of_int (attribute_format_size env (format a) * int (componentCount a)) / 4\<rceil>"
  define loc where "loc = int (location info)"
  define stream where "stream = streams vp ! streamIndex a"
  have cc: "to_u8 (c_div (attribute_format_size env (format a) * int (componentCount a) + 3) 4) = e"
    unfolding e_def by (rule regformat_component_count[OF size])
  have l: "attribute_layout env info a =
             (if e > 4 then (4, GL_INT, True, (e + 3) div 4, 16) else (e, GL_INT, True, 1, 0))"
    using reg by (simp add: attribute_layout_def Let_def cc)
  have goal: "sync_attribute env vp glvert offsets a =
     Inr (if e \<le> 4
          then [GlVertexAttribIPointer loc e GL_INT (stride stream)
                  (map_option (\<lambda>base. offset a + base) (offsets ! streamIndex a)),
                GlEnableVertexAttribArray loc,
                GlVertexAttribDivisor loc
                  (if is_stream_instancing env (indexSource stream) then 1 else 0)]
          else concat (map (\<lambda>i.
                 [GlVertexAttribIPointer (loc + int i) 4 GL_INT (stride stream)
                    (map_option (\<lambda>base. i * 16 + offset a + base) (offsets ! streamIndex a)),
                  GlEnableVertexAttribArray (loc + int i),
                  GlVertexAttribDivisor (loc + int i)
                    (if is_stream_instancing env (indexSource stream) then 1 else 0)])
                 [0..<(e + 3) div 4]))"
  proof (cases "e \<le> 4")
    case True
    then have "attribute_layout env info a = (e, GL_INT, True, 1, 0)"
      using l by simp
    then show ?thesis
      using True info rng
      by (simp add: sync_attribute_def attribute_elements_upt loc_def stream_def)
  next
    case False
    then have "attribute_layout env info a = (4, GL_INT, True, (e + 3) div 4, 16)"
      using l by simp
    then show ?thesis
      using False info rng
      by (simp add: sync_attribute_def attribute_elements_upt loc_def stream_def)
  qed
  show ?thesis
    unfolding Let_def ceiling_quarter_nat e_def[symmetric] loc_def[symmetric] stream_def[symmetric]
    by (rule goal)
qed

theorem regformat_attribute_locations_witness:
  "attribute_infos (renderer_data ex_vertex_program) (regIndex (ex_attribute 1 0 5 4))
     = Some \<lparr>location = 1, gxm_type = SCE_GXM_PARAMETER_TYPE_F32, regformat = True\<rparr>
   \<and> streamIndex (ex_attribute 1 0 5 4) < length (streams ex_vertex_program)
   \<and> streamIndex (ex_attribute 1 0 5 4) < length [Some 64, Some (0 :: nat), None, Some 0]
   \<and> 0 \<le> attribute_format_size ex_vtx_env (format (ex_attribute 1 0 5 4))
   \<and> attribute_format_size ex_vtx_env (format (ex_attribute 1 0 5 4))
       * int (componentCount (ex_attribute 1 0 5 4)) \<le> 1020
   \<and> sync_attribute ex_vtx_env ex_vertex_program (renderer_data ex_vertex_program)
        [Some 64, Some 0, None, Some 0] (ex_attribute 1 0 5 4)
       = Inr [GlVertexAttribIPointer 1 4 GL_INT 32 (Some 0),
              GlEnableVertexAttribArray 1,
              GlVertexAttribDivisor 1 1,
              GlVertexAttribIPointer 2 4 GL_INT 32 (Some 16),
              GlEnableVertexAttribArray 2,
              GlVertexAttribDivisor 2 1]"
proof -
  let ?info = "\<lparr>location = 1, gxm_type = SCE_GXM_PARAMETER_TYPE_F32, regformat = True\<rparr>"
  have h1: "attribute_infos (renderer_data ex_vertex_program) (regIndex (ex_attribute 1 0 5 4))
            = Some ?info"
    by (simp add: ex_vertex_program_def ex_attribute_def)
  have h2: "regformat ?info"
    by simp
  have h3: "streamIndex (ex_attribute 1 0 5 4) < length (streams ex_vertex_program)"
    by (simp add: ex_vertex_program_def ex_attribute_def)
  have h4: "streamIndex (ex_attribute 1 0 5 4) < length [Some 64, Some (0 :: nat), None, Some 0]"
    by (simp add: ex_attribute_def)
  have h5: "0 \<le> attribute_format_size ex_vtx_env (format (ex_attribute 1 0 5 4))"
    by (simp add: ex_vtx_env_def)
  have h6: "attribute_format_size ex_vtx_env (format (ex_attribute 1 0 5 4))
            * int (componentCount (ex_attribute 1 0 5 4)) \<le> 1020"
    by (simp add: ex_vtx_env_def ex_attribute_def)
  have c2: "nat \<lceil>real 5 / 4\<rceil> = 2"
    by (simp add: ceiling_quarter_nat)
  have u: "[0..<2] = [0, Suc 0]"
    by (simp add: upt_rec)
  show ?thesis
    using h1 h3 h4 h5 h6 regformat_attribute_locations[OF h1 h2 h3 h4 h5 h6]
    by (simp add: ex_vtx_env_def ex_attribute_def ex_vertex_program_def Let_def c2 u)
qed

section \<open>The whole of \<open>sync_vertex_streams_and_attributes\<close>\<close>

text \<open>
  C9. When every attribute with a known location names a stream of the vertex program that
  is also one of the streams of the record state, the calls of
  \<open>sync_vertex_streams_and_attributes\<close> are those of the staging loop, the binding of the
  ring buffer, the calls of \<open>attribute_calls\<close> for each attribute in turn, and the
  unbinding. For an attribute without a known location \<open>attribute_calls\<close> is empty; for
  the others it is, for each element \<open>i\<close>, the pointer at \<open>i\<close> times the element stride plus
  the offset of the attribute plus the offset the staging loop gave its stream, then the
  enable, then the divisor (1 for an instanced stream, else 0).
\<close>

theorem attribute_bindings:
  assumes "\<forall>a \<in> set (attributes (vertex_program state)).
             attribute_infos (check_stripped_symbols (vertex_program state)) (regIndex a) \<noteq> None \<longrightarrow>
             streamIndex a < length (streams (vertex_program state))
             \<and> streamIndex a < length (vertex_streams state)"
  shows "\<exists>ring' state' staging offsets.
           stage_streams env ring 0 (vertex_streams state)
             = (ring', vertex_streams state', offsets, staging)
           \<and> sync_vertex_streams_and_attributes env ring state
             = Inr (ring', state',
                    staging @ [GlBindBuffer GL_ARRAY_BUFFER (handle env ring')]
                    @ concat (map (attribute_calls env (vertex_program state)
                                     (check_stripped_symbols (vertex_program state)) offsets)
                                (attributes (vertex_program state)))
                    @ [GlBindBuffer GL_ARRAY_BUFFER 0])
           \<and> (\<forall>a. attribute_infos (check_stripped_symbols (vertex_program state)) (regIndex a) = None \<longrightarrow>
                    attribute_calls env (vertex_program state)
                      (check_stripped_symbols (vertex_program state)) offsets a = [])"
proof -
  let ?vp = "vertex_program state"
  let ?gl = "check_stripped_symbols ?vp"
  obtain ring' ss' offsets staging where
    s: "stage_streams env ring 0 (vertex_streams state) = (ring', ss', offsets, staging)"
    by (cases "stage_streams env ring 0 (vertex_streams state)") auto
  have len: "length offsets = length (vertex_streams state)"
    using stage_streams_lengths[OF s] by simp
  have a: "sync_attributes env ?vp ?gl offsets (attributes ?vp)
           = Inr (concat (map (attribute_calls env ?vp ?gl offsets) (attributes ?vp)))"
    using assms by (intro sync_attributes_calls) (simp add: len)
  let ?state' = "state\<lparr>vertex_program := ?vp\<lparr>renderer_data := ?gl\<rparr>, vertex_streams := ss'\<rparr>"
  have "sync_vertex_streams_and_attributes env ring state
        = Inr (ring', ?state',
               staging @ [GlBindBuffer GL_ARRAY_BUFFER (handle env ring')]
               @ concat (map (attribute_calls env ?vp ?gl offsets) (attributes ?vp))
               @ [GlBindBuffer GL_ARRAY_BUFFER 0])"
    by (simp add: sync_vertex_streams_and_attributes_def Let_def s a)
  moreover have "stage_streams env ring 0 (vertex_streams state)
                 = (ring', vertex_streams ?state', offsets, staging)"
    using s by simp
  moreover have "\<forall>a. attribute_infos ?gl (regIndex a) = None \<longrightarrow>
                      attribute_calls env ?vp ?gl offsets a = []"
    by (simp add: attribute_calls_def)
  ultimately show ?thesis
    by blast
qed

lemma ex_stage_streams:
  "stage_streams ex_vtx_env 64 0 ex_streams
   = (112,
      [\<lparr>stream_data = 0, stream_size = 0\<rparr>, \<lparr>stream_data = 0, stream_size = 0\<rparr>,
       \<lparr>stream_data = 0, stream_size = 0\<rparr>, \<lparr>stream_data = 0, stream_size = 0\<rparr>],
      [Some 64, Some 0, None, Some 0],
      [RingAllocate 0 48, Memcpy 64 4096 48, RingAllocate 2 2000,
       LogError ''Failed to allocate vertex stream data from GPU!''])"
  by (simp add: ex_vtx_env_def ex_streams_def)

lemma ex_attributes_in_range:
  "\<forall>a \<in> set (attributes (vertex_program ex_record_state)).
     attribute_infos (check_stripped_symbols (vertex_program ex_record_state)) (regIndex a) \<noteq> None \<longrightarrow>
     streamIndex a < length (streams (vertex_program ex_record_state))
     \<and> streamIndex a < length (vertex_streams ex_record_state)"
  by (simp add: ex_record_state_def ex_vertex_program_def ex_attribute_def ex_streams_def
        check_stripped_symbols_def)

theorem attribute_bindings_witness:
  "attributes (vertex_program ex_record_state)
     = [ex_attribute 0 4 3 0, ex_attribute 1 0 5 4, ex_attribute 7 0 1 9]
   \<and> length (streams (vertex_program ex_record_state)) = 2
   \<and> length (vertex_streams ex_record_state) = 4
   \<and> attribute_infos (check_stripped_symbols (vertex_program ex_record_state))
        (regIndex (ex_attribute 7 0 1 9)) = None
   \<and> events_after ex_first_draw
       = Some [RingAllocate 0 48, Memcpy 64 4096 48, RingAllocate 2 2000,
               LogError ''Failed to allocate vertex stream data from GPU!'',
               GlBindBuffer GL_ARRAY_BUFFER 7,
               GlVertexAttribPointer 0 3 5126 False 16 (Some 68),
               GlEnableVertexAttribArray 0,
               GlVertexAttribDivisor 0 0,
               GlVertexAttribIPointer 1 4 GL_INT 32 (Some 0),
               GlEnableVertexAttribArray 1,
               GlVertexAttribDivisor 1 1,
               GlVertexAttribIPointer 2 4 GL_INT 32 (Some 16),
               GlEnableVertexAttribArray 2,
               GlVertexAttribDivisor 2 1,
               GlBindBuffer GL_ARRAY_BUFFER 0]"
proof -
  note h = ex_attributes_in_range
  from attribute_bindings[OF h, of ex_vtx_env 64]
  obtain ring' state' staging offsets where
    s: "stage_streams ex_vtx_env 64 0 (vertex_streams ex_record_state)
        = (ring', vertex_streams state', offsets, staging)"
    and r: "sync_vertex_streams_and_attributes ex_vtx_env 64 ex_record_state
            = Inr (ring', state',
                   staging @ [GlBindBuffer GL_ARRAY_BUFFER (handle ex_vtx_env ring')]
                   @ concat (map (attribute_calls ex_vtx_env (vertex_program ex_record_state)
                                    (check_stripped_symbols (vertex_program ex_record_state)) offsets)
                               (attributes (vertex_program ex_record_state)))
                   @ [GlBindBuffer GL_ARRAY_BUFFER 0])"
    by blast
  have v: "vertex_streams ex_record_state = ex_streams"
    by (simp add: ex_record_state_def)
  have o: "offsets = [Some 64, Some 0, None, Some 0]"
    and g: "staging = [RingAllocate 0 48, Memcpy 64 4096 48, RingAllocate 2 2000,
                       LogError ''Failed to allocate vertex stream data from GPU!'']"
    using s by (simp_all add: v ex_stage_streams)
  have u: "[0..<2] = [0, Suc 0]"
    by (simp add: upt_rec)
  have n: "attribute_infos (check_stripped_symbols (vertex_program ex_record_state))
             (regIndex (ex_attribute 7 0 1 9)) = None"
    by (simp add: ex_record_state_def ex_vertex_program_def ex_attribute_def
          check_stripped_symbols_def)
  have "events_after ex_first_draw
        = Some (staging @ [GlBindBuffer GL_ARRAY_BUFFER (handle ex_vtx_env ring')]
                @ concat (map (attribute_calls ex_vtx_env (vertex_program ex_record_state)
                                 (check_stripped_symbols (vertex_program ex_record_state)) offsets)
                            (attributes (vertex_program ex_record_state)))
                @ [GlBindBuffer GL_ARRAY_BUFFER 0])"
    by (simp add: ex_first_draw_def events_after_def r)
  also have "\<dots> = Some [RingAllocate 0 48, Memcpy 64 4096 48, RingAllocate 2 2000,
               LogError ''Failed to allocate vertex stream data from GPU!'',
               GlBindBuffer GL_ARRAY_BUFFER 7,
               GlVertexAttribPointer 0 3 5126 False 16 (Some 68),
               GlEnableVertexAttribArray 0,
               GlVertexAttribDivisor 0 0,
               GlVertexAttribIPointer 1 4 GL_INT 32 (Some 0),
               GlEnableVertexAttribArray 1,
               GlVertexAttribDivisor 1 1,
               GlVertexAttribIPointer 2 4 GL_INT 32 (Some 16),
               GlEnableVertexAttribArray 2,
               GlVertexAttribDivisor 2 1,
               GlBindBuffer GL_ARRAY_BUFFER 0]"
    by (simp add: o g u attribute_calls_def attribute_layout_def check_stripped_symbols_def
          to_u8_def c_div_def Let_def ex_vtx_env_def ex_attribute_def ex_vertex_program_def
          ex_record_state_def)
  finally show ?thesis
    using n by (simp add: ex_record_state_def ex_vertex_program_def ex_streams_def)
qed

text \<open>
  C10. Whatever the allocation returns, the staging loop clears the data pointer and the
  size of every stream that had data; when the allocation fails the element of
  \<open>offset_in_buffer\<close> of the stream stays unwritten, and a stream without data gets offset 0.
  Staging the streams the loop leaves, with any ring buffer, makes no call at all, so no
  allocation is tried again.
\<close>

theorem failed_allocation_clears_stream:
  assumes "stage_streams env ring i ss = (ring', ss', offsets, events)"
  shows "length ss' = length ss \<and> length offsets = length ss
         \<and> (\<forall>k < length ss. stream_data (ss ! k) \<noteq> 0 \<longrightarrow>
               stream_data (ss' ! k) = 0 \<and> stream_size (ss' ! k) = 0
               \<and> (fst (allocate env (ring_before env ring ss k) (stream_size (ss ! k))) = None \<longrightarrow>
                    offsets ! k = None))
         \<and> (\<forall>k < length ss. stream_data (ss ! k) = 0 \<longrightarrow> offsets ! k = Some 0)
         \<and> stage_streams env later j ss' = (later, ss', replicate (length ss) (Some 0), [])"
proof -
  note n = stage_streams_nth[OF assms]
  have l: "length ss' = length ss \<and> length offsets = length ss"
    using stage_streams_lengths[OF assms] .
  have a: "\<forall>k < length ss. stream_data (ss ! k) \<noteq> 0 \<longrightarrow>
             stream_data (ss' ! k) = 0 \<and> stream_size (ss' ! k) = 0
             \<and> (fst (allocate env (ring_before env ring ss k) (stream_size (ss ! k))) = None \<longrightarrow>
                  offsets ! k = None)"
  proof (intro allI impI)
    fix k
    assume "k < length ss" and "stream_data (ss ! k) \<noteq> 0"
    then show "stream_data (ss' ! k) = 0 \<and> stream_size (ss' ! k) = 0
               \<and> (fst (allocate env (ring_before env ring ss k) (stream_size (ss ! k))) = None \<longrightarrow>
                    offsets ! k = None)"
      using n[of k] by simp
  qed
  have b: "\<forall>k < length ss. stream_data (ss ! k) = 0 \<longrightarrow> offsets ! k = Some 0"
    using n by simp
  have "stage_streams env later j ss' = (later, ss', replicate (length ss') (Some 0), [])"
    using stage_streams_cleared[OF assms] by (rule stage_streams_idle)
  then show ?thesis
    using l a b by simp
qed

theorem failed_allocation_clears_stream_witness:
  "stage_streams ex_vtx_env 64 0 ex_streams
   = (112,
      [\<lparr>stream_data = 0, stream_size = 0\<rparr>, \<lparr>stream_data = 0, stream_size = 0\<rparr>,
       \<lparr>stream_data = 0, stream_size = 0\<rparr>, \<lparr>stream_data = 0, stream_size = 0\<rparr>],
      [Some 64, Some 0, None, Some 0],
      [RingAllocate 0 48, Memcpy 64 4096 48, RingAllocate 2 2000,
       LogError ''Failed to allocate vertex stream data from GPU!''])
   \<and> (2 :: nat) < length ex_streams
   \<and> stream_data (ex_streams ! 2) \<noteq> 0
   \<and> fst (allocate ex_vtx_env (ring_before ex_vtx_env 64 ex_streams 2) (stream_size (ex_streams ! 2)))
       = None
   \<and> (1 :: nat) < length ex_streams
   \<and> stream_data (ex_streams ! 1) = 0
   \<and> stage_streams ex_vtx_env 112 0
        [\<lparr>stream_data = 0, stream_size = 0\<rparr>, \<lparr>stream_data = 0, stream_size = 0\<rparr>,
         \<lparr>stream_data = 0, stream_size = 0\<rparr>, \<lparr>stream_data = 0, stream_size = 0\<rparr>]
       = (112,
          [\<lparr>stream_data = 0, stream_size = 0\<rparr>, \<lparr>stream_data = 0, stream_size = 0\<rparr>,
           \<lparr>stream_data = 0, stream_size = 0\<rparr>, \<lparr>stream_data = 0, stream_size = 0\<rparr>],
          [Some 0, Some 0, Some 0, Some 0], [])"
proof -
  let ?z = "\<lparr>stream_data = 0, stream_size = 0\<rparr>"
  note r = ex_stage_streams
  have l: "length ex_streams = 4"
    by (simp add: ex_streams_def)
  have h2: "stream_data (ex_streams ! 2) \<noteq> 0"
    by (simp add: ex_streams_def)
  have h3: "fst (allocate ex_vtx_env (ring_before ex_vtx_env 64 ex_streams 2)
                   (stream_size (ex_streams ! 2))) = None"
    by (simp add: ex_streams_def ex_vtx_env_def eval_nat_numeral)
  have h4: "stream_data (ex_streams ! 1) = 0"
    by (simp add: ex_streams_def)
  have "stage_streams ex_vtx_env 112 0 [?z, ?z, ?z, ?z]
        = (112, [?z, ?z, ?z, ?z], replicate (length ex_streams) (Some 0), [])"
    using failed_allocation_clears_stream[OF r, of 112 0] by blast
  then have "stage_streams ex_vtx_env 112 0 [?z, ?z, ?z, ?z]
             = (112, [?z, ?z, ?z, ?z], [Some 0, Some 0, Some 0, Some 0], [])"
    by (simp add: l eval_nat_numeral)
  then show ?thesis
    using r l h2 h3 h4 by simp
qed

lemma attribute_calls_base:
  assumes "streamIndex a < length offsets" and "offsets ! streamIndex a = Some 0"
  shows "attribute_calls env vp glvert offsets a
         = attribute_calls env vp glvert (replicate (length offsets) (Some 0)) a"
proof -
  have e: "replicate (length offsets) (Some 0) ! streamIndex a = offsets ! streamIndex a"
    using assms by simp
  show ?thesis
    unfolding attribute_calls_def e by (rule refl)
qed

text \<open>
  C3, as the code has it. The staging loop goes through the streams in the order of their
  indices; it allocates for a stream, and copies when the allocation succeeds, exactly when
  the stream has data in this draw. A stream without data in this draw gets offset 0, so
  that its attributes are bound as with every offset 0, at the offset of the attribute from
  the start of the ring buffer, wherever an earlier draw put the stream.
\<close>

theorem staging_order:
  assumes "stage_streams env ring i ss = (ring', ss', offsets, events)"
  shows "events = concat (map (stream_events env ring ss i) [0..<length ss])
         \<and> (\<forall>k < length ss. stream_data (ss ! k) = 0 \<longrightarrow>
               stream_events env ring ss i k = []
               \<and> offsets ! k = Some 0
               \<and> (\<forall>a. streamIndex a = k \<longrightarrow>
                     attribute_calls env vp glvert offsets a
                     = attribute_calls env vp glvert (replicate (length ss) (Some 0)) a))"
proof -
  have l: "length offsets = length ss"
    using stage_streams_lengths[OF assms] by simp
  have "\<forall>k < length ss. stream_data (ss ! k) = 0 \<longrightarrow>
          stream_events env ring ss i k = []
          \<and> offsets ! k = Some 0
          \<and> (\<forall>a. streamIndex a = k \<longrightarrow>
                attribute_calls env vp glvert offsets a
                = attribute_calls env vp glvert (replicate (length ss) (Some 0)) a)"
  proof (intro allI impI)
    fix k
    assume k: "k < length ss" and d: "stream_data (ss ! k) = 0"
    have o: "offsets ! k = Some 0"
      using stage_streams_nth[OF assms k] d by simp
    have "attribute_calls env vp glvert offsets a
          = attribute_calls env vp glvert (replicate (length ss) (Some 0)) a"
      if "streamIndex a = k" for a
      using attribute_calls_base[of a offsets env vp glvert] that k o l by simp
    then show "stream_events env ring ss i k = []
               \<and> offsets ! k = Some 0
               \<and> (\<forall>a. streamIndex a = k \<longrightarrow>
                     attribute_calls env vp glvert offsets a
                     = attribute_calls env vp glvert (replicate (length ss) (Some 0)) a)"
      using d o by (simp add: stream_events_def)
  qed
  then show ?thesis
    using stage_streams_events[OF assms] by blast
qed

theorem staging_order_witness:
  "stage_streams ex_vtx_env 64 0 ex_streams
   = (112,
      [\<lparr>stream_data = 0, stream_size = 0\<rparr>, \<lparr>stream_data = 0, stream_size = 0\<rparr>,
       \<lparr>stream_data = 0, stream_size = 0\<rparr>, \<lparr>stream_data = 0, stream_size = 0\<rparr>],
      [Some 64, Some 0, None, Some 0],
      [RingAllocate 0 48, Memcpy 64 4096 48, RingAllocate 2 2000,
       LogError ''Failed to allocate vertex stream data from GPU!''])
   \<and> [RingAllocate 0 48, Memcpy 64 4096 48, RingAllocate 2 2000,
       LogError ''Failed to allocate vertex stream data from GPU!'']
     = concat (map (stream_events ex_vtx_env 64 ex_streams 0) [0..<length ex_streams])
   \<and> (1 :: nat) < length ex_streams
   \<and> stream_data (ex_streams ! 1) = 0
   \<and> streamIndex (ex_attribute 1 0 5 4) = 1
   \<and> attribute_calls ex_vtx_env ex_vertex_program (renderer_data ex_vertex_program)
        [Some 64, Some 0, None, Some 0] (ex_attribute 1 0 5 4)
     = attribute_calls ex_vtx_env ex_vertex_program (renderer_data ex_vertex_program)
         (replicate (length ex_streams) (Some 0)) (ex_attribute 1 0 5 4)"
proof -
  note r = ex_stage_streams
  note t = staging_order[OF r, of ex_vertex_program "renderer_data ex_vertex_program"]
  have h1: "(1 :: nat) < length ex_streams"
    by (simp add: ex_streams_def)
  have h2: "stream_data (ex_streams ! 1) = 0"
    by (simp add: ex_streams_def)
  have h3: "streamIndex (ex_attribute 1 0 5 4) = 1"
    by (simp add: ex_attribute_def)
  show ?thesis
    using r t h1 h2 h3 by blast
qed

text \<open>
  C3 as the claim words it fails for a stream staged by an earlier draw. The first draw puts
  the 48 bytes of stream 0 at offset 64 of the ring buffer and binds its attribute, of offset
  4, at 68. The second draw has no data for stream 0: it binds the attribute at 4, not at
  the offset of the earlier allocation.
\<close>

theorem staging_order_counterexample:
  "events_after ex_first_draw
     = Some [RingAllocate 0 48, Memcpy 64 4096 48, RingAllocate 2 2000,
             LogError ''Failed to allocate vertex stream data from GPU!'',
             GlBindBuffer GL_ARRAY_BUFFER 7,
             GlVertexAttribPointer 0 3 5126 False 16 (Some 68),
             GlEnableVertexAttribArray 0,
             GlVertexAttribDivisor 0 0,
             GlVertexAttribIPointer 1 4 GL_INT 32 (Some 0),
             GlEnableVertexAttribArray 1,
             GlVertexAttribDivisor 1 1,
             GlVertexAttribIPointer 2 4 GL_INT 32 (Some 16),
             GlEnableVertexAttribArray 2,
             GlVertexAttribDivisor 2 1,
             GlBindBuffer GL_ARRAY_BUFFER 0]
   \<and> events_after ex_second_draw
     = Some [GlBindBuffer GL_ARRAY_BUFFER 7,
             GlVertexAttribPointer 0 3 5126 False 16 (Some 4),
             GlEnableVertexAttribArray 0,
             GlVertexAttribDivisor 0 0,
             GlVertexAttribIPointer 1 4 GL_INT 32 (Some 0),
             GlEnableVertexAttribArray 1,
             GlVertexAttribDivisor 1 1,
             GlVertexAttribIPointer 2 4 GL_INT 32 (Some 16),
             GlEnableVertexAttribArray 2,
             GlVertexAttribDivisor 2 1,
             GlBindBuffer GL_ARRAY_BUFFER 0]"
  by (simp add: sync_vertex_streams_and_attributes_def check_stripped_symbols_def
        sync_attribute_def attribute_layout_def attribute_elements_upt to_u8_def c_div_def Let_def
        ex_vtx_env_def ex_attribute_def ex_vertex_program_def ex_streams_def ex_record_state_def
        ex_first_draw_def ex_second_draw_def events_after_def upt_rec)

end
